theory Spec2Isabelle
  imports Main "HOL-Library.Word"
begin

section \<open>Infra-red remote control support of WLED (wled00/ir.cpp)\<close>

text \<open>
  A shallow embedding of \<^verbatim>\<open>wled00/ir.cpp\<close>: the action support functions, the
  \<^verbatim>\<open>Action\<close> objects with their repeat bookkeeping, the key maps of the remotes, the
  lookup of a received code (\<^verbatim>\<open>handleIRCode\<close>) and the poller (\<^verbatim>\<open>handleIR\<close>).

  Machine integers: \<^verbatim>\<open>byte\<close> and \<^verbatim>\<open>uint8_t\<close> are 8-bit words, \<^verbatim>\<open>uint16_t\<close> is a
  16-bit word, \<^verbatim>\<open>uint32_t\<close> and \<^verbatim>\<open>unsigned long\<close> (the type of \<^verbatim>\<open>millis()\<close> on the
  ESP8266 and ESP32 this firmware is built for) are 32-bit words, so that subtraction of
  time stamps wraps around as it does on the device.
\<close>

type_synonym byte = "8 word"
type_synonym uint16 = "16 word"
type_synonym uint32 = "32 word"
type_synonym uint64 = "64 word"

subsection \<open>The enumeration \<^verbatim>\<open>ActionType\<close>\<close>

text \<open>
  The enumerators in the order of the source. The last enumerator of the source,
  \<^verbatim>\<open>Action_Count\<close>, is no action: it is the length of the array \<^verbatim>\<open>actions\<close>, and is
  the constant \<open>Action_Count\<close> below. Only the code equations of the datatype are
  generated, which keeps a type of 54 constructors cheap to check.
\<close>

datatype (plugins only: code) ActionType =
    Action_PowerOff
  | Action_PowerOn
  | Action_PowerToggle
  | Action_PowerOffWhite
  | Action_PowerOnWhite
  | Action_PowerToggleWhite
  | Action_Bright_Up
  | Action_Bright_Down
  | Action_Bright_25
  | Action_Bright_50
  | Action_Bright_75
  | Action_Bright_100
  | Action_White_Bright_Up
  | Action_White_Bright_Down
  | Action_Speed_Up
  | Action_Speed_Down
  | Action_Intensity_Up
  | Action_Intensity_Down
  | Action_Preset_1
  | Action_Preset_2
  | Action_Preset_3
  | Action_Preset_4
  | Action_Preset_5
  | Action_Preset_6
  | Action_Preset_7
  | Action_Preset_8
  | Action_Preset_9
  | Action_Preset_10
  | Action_Preset_Next
  | Action_Preset_Prev
  | Action_Palette_Next
  | Action_Palette_Prev
  | Action_Color_Aqua
  | Action_Color_Blue
  | Action_Color_ColdWhite
  | Action_Color_ColdWhite2
  | Action_Color_Cyan
  | Action_Color_Deepblue
  | Action_Color_Green
  | Action_Color_Greenish
  | Action_Color_Magenta
  | Action_Color_NeutralWhite
  | Action_Color_Orange
  | Action_Color_Pink
  | Action_Color_Purple
  | Action_Color_Red
  | Action_Color_Reddish
  | Action_Color_Turquoise
  | Action_Color_WarmWhite
  | Action_Color_WarmWhite2
  | Action_Color_White
  | Action_Color_Yellow
  | Action_Color_Yellowish
  | Action_Color_Rotate

text \<open>The integer value of an enumerator, which the comparisons of the source use.\<close>

fun ActionType_value :: "ActionType \<Rightarrow> nat" where
  "ActionType_value Action_PowerOff = 0"
| "ActionType_value Action_PowerOn = 1"
| "ActionType_value Action_PowerToggle = 2"
| "ActionType_value Action_PowerOffWhite = 3"
| "ActionType_value Action_PowerOnWhite = 4"
| "ActionType_value Action_PowerToggleWhite = 5"
| "ActionType_value Action_Bright_Up = 6"
| "ActionType_value Action_Bright_Down = 7"
| "ActionType_value Action_Bright_25 = 8"
| "ActionType_value Action_Bright_50 = 9"
| "ActionType_value Action_Bright_75 = 10"
| "ActionType_value Action_Bright_100 = 11"
| "ActionType_value Action_White_Bright_Up = 12"
| "ActionType_value Action_White_Bright_Down = 13"
| "ActionType_value Action_Speed_Up = 14"
| "ActionType_value Action_Speed_Down = 15"
| "ActionType_value Action_Intensity_Up = 16"
| "ActionType_value Action_Intensity_Down = 17"
| "ActionType_value Action_Preset_1 = 18"
| "ActionType_value Action_Preset_2 = 19"
| "ActionType_value Action_Preset_3 = 20"
| "ActionType_value Action_Preset_4 = 21"
| "ActionType_value Action_Preset_5 = 22"
| "ActionType_value Action_Preset_6 = 23"
| "ActionType_value Action_Preset_7 = 24"
| "ActionType_value Action_Preset_8 = 25"
| "ActionType_value Action_Preset_9 = 26"
| "ActionType_value Action_Preset_10 = 27"
| "ActionType_value Action_Preset_Next = 28"
| "ActionType_value Action_Preset_Prev = 29"
| "ActionType_value Action_Palette_Next = 30"
| "ActionType_value Action_Palette_Prev = 31"
| "ActionType_value Action_Color_Aqua = 32"
| "ActionType_value Action_Color_Blue = 33"
| "ActionType_value Action_Color_ColdWhite = 34"
| "ActionType_value Action_Color_ColdWhite2 = 35"
| "ActionType_value Action_Color_Cyan = 36"
| "ActionType_value Action_Color_Deepblue = 37"
| "ActionType_value Action_Color_Green = 38"
| "ActionType_value Action_Color_Greenish = 39"
| "ActionType_value Action_Color_Magenta = 40"
| "ActionType_value Action_Color_NeutralWhite = 41"
| "ActionType_value Action_Color_Orange = 42"
| "ActionType_value Action_Color_Pink = 43"
| "ActionType_value Action_Color_Purple = 44"
| "ActionType_value Action_Color_Red = 45"
| "ActionType_value Action_Color_Reddish = 46"
| "ActionType_value Action_Color_Turquoise = 47"
| "ActionType_value Action_Color_WarmWhite = 48"
| "ActionType_value Action_Color_WarmWhite2 = 49"
| "ActionType_value Action_Color_White = 50"
| "ActionType_value Action_Color_Yellow = 51"
| "ActionType_value Action_Color_Yellowish = 52"
| "ActionType_value Action_Color_Rotate = 53"

definition Action_Count :: nat where
  "Action_Count = 54"

subsection \<open>The state\<close>

text \<open>
  The globals of \<^verbatim>\<open>wled.h\<close> that this file reads and writes, and the clock: \<open>millis\<close>
  is the value a call of \<^verbatim>\<open>millis()\<close> returns in this state. The functions of the rest
  of the firmware act on these globals and may take time (advance \<open>millis\<close>).
  \<open>currentPreset\<close> is kept as the integer the comparison of the source sees after
  integer promotion.
\<close>

record wled_globals =
  bri :: byte
  col3 :: byte
  effectCurrent :: byte
  effectSpeed :: byte
  effectIntensity :: byte
  effectPalette :: byte
  currentPreset :: int
  strip_isRgbw :: bool
  irEnabled :: byte
  millis :: uint32

text \<open>
  What a bound function of an \<^verbatim>\<open>Action\<close> can reach: the globals and the function-local
  statics \<^verbatim>\<open>color_index\<close> (of \<^verbatim>\<open>actionColorRotate\<close>), \<^verbatim>\<open>presetSelectTime\<close> (of
  \<^verbatim>\<open>actionApplyPreset\<close>) and \<^verbatim>\<open>results\<close> (the cache of \<^verbatim>\<open>presetButtonsConfigured\<close>,
  an array of \<^verbatim>\<open>ConfigurableRemoteCount\<close> bytes, read and written below only after the
  index is checked against that bound).
\<close>

record action_state =
  wled :: wled_globals
  color_index :: byte
  presetSelectTime :: uint32
  results :: "nat \<Rightarrow> byte"

text \<open>
  What the code calls outside itself, in the order of the calls: the prints on the serial
  line, the call of an action's bound function, the notification \<^verbatim>\<open>colorUpdated\<close>, and
  the operations on the \<^verbatim>\<open>IRrecv\<close> decoder.
\<close>

datatype event =
    Serial_println string
  | Serial_printf_IR_recv uint32
  | Call_action_fn ActionType
  | ColorUpdated
  | IRrecv_new
  | IRrecv_enableIRIn
  | IRrecv_disableIRIn
  | IRrecv_delete
  | IRrecv_decode
  | IRrecv_resume

text \<open>
  The whole state: the layer above, the private statics of \<^verbatim>\<open>Action\<close>
  (\<^verbatim>\<open>_lastRepeatableAction\<close> points into the array \<^verbatim>\<open>actions\<close>, so it is the index of
  an action or null), the statics of \<^verbatim>\<open>handleIR\<close> (\<open>irrecv\<close> says whether the pointer
  \<^verbatim>\<open>irrecv\<close> is non-null), and the trace of the events so far.
\<close>

record ir_state =
  act :: action_state
  lastRepeatableAction :: "ActionType option"
  repeat_count :: byte
  last_action_time :: uint32
  irrecv :: bool
  irCheckedTime :: uint32
  trace :: "event list"

abbreviation now :: "ir_state \<Rightarrow> uint32" where
  "now s \<equiv> millis (wled (act s))"

subsection \<open>What the file uses and does not define\<close>

text \<open>
  The macros \<^verbatim>\<open>COLOR_*\<close> and \<^verbatim>\<open>FX_MODE_*\<close> by name; their values are given by the
  environment below.
\<close>

datatype color_macro =
    COLOR_AQUA | COLOR_BLUE | COLOR_CYAN | COLOR_DEEPBLUE | COLOR_GREEN | COLOR_GREENISH
  | COLOR_MAGENTA | COLOR_ORANGE | COLOR_PINK | COLOR_PURPLE | COLOR_RED | COLOR_REDDISH
  | COLOR_TURQUOISE | COLOR_WHITE | COLOR_YELLOW | COLOR_YELLOWISH
  | COLOR_COLDWHITE | COLOR_COLDWHITE2 | COLOR_NEUTRALWHITE | COLOR_WARMWHITE | COLOR_WARMWHITE2
  | COLOR2_COLDWHITE | COLOR2_COLDWHITE2 | COLOR2_NEUTRALWHITE | COLOR2_WARMWHITE
  | COLOR2_WARMWHITE2

datatype fx_macro =
    FX_MODE_STATIC | FX_MODE_TWINKLE | FX_MODE_BREATH | FX_MODE_COLORTWINKLE
  | FX_MODE_RAINBOW_CYCLE | FX_MODE_RAINBOW | FX_MODE_METEOR_SMOOTH | FX_MODE_FIRE_FLICKER
  | FX_MODE_PALETTE | FX_MODE_TWINKLEFOX

text \<open>
  The environment: the constants and functions of the rest of the firmware, which are
  parameters of the model. \<open>MODE_COUNT\<close> is the macro, \<open>getPaletteCount\<close> is
  \<^verbatim>\<open>strip.getPaletteCount()\<close>; both are counts. The second argument of
  \<open>colorFromUint24\<close> is \<open>None\<close> where the source leaves it to the default of the
  declaration. \<open>applyPreset\<close> returns whether the preset exists. \<open>colorUpdated\<close> is the
  call \<^verbatim>\<open>colorUpdated(NOTIFIER_CALL_MODE_BUTTON)\<close>.
\<close>

record ext =
  MODE_COUNT :: nat
  getPaletteCount :: "wled_globals \<Rightarrow> nat"
  COLOR :: "color_macro \<Rightarrow> uint32"
  FX_MODE :: "fx_macro \<Rightarrow> uint16"
  colorFromUint24 :: "uint32 \<Rightarrow> bool option \<Rightarrow> wled_globals \<Rightarrow> wled_globals"
  colorFromUint32 :: "uint32 \<Rightarrow> wled_globals \<Rightarrow> wled_globals"
  changeHue :: "int \<Rightarrow> wled_globals \<Rightarrow> wled_globals"
  changeSaturation :: "int \<Rightarrow> wled_globals \<Rightarrow> wled_globals"
  applyPreset :: "byte \<Rightarrow> wled_globals \<Rightarrow> bool \<times> wled_globals"
  powerOff :: "wled_globals \<Rightarrow> wled_globals"
  powerOn :: "wled_globals \<Rightarrow> wled_globals"
  toggleOnOff :: "wled_globals \<Rightarrow> wled_globals"
  powerOffWhite :: "wled_globals \<Rightarrow> wled_globals"
  powerOnWhite :: "wled_globals \<Rightarrow> wled_globals"
  toggleOnOffWhite :: "wled_globals \<Rightarrow> wled_globals"
  colorUpdated :: "wled_globals \<Rightarrow> wled_globals"

subsection \<open>IR remote definitions\<close>

text \<open>An entry of a key map: an IR code and the \<^verbatim>\<open>ActionType\<close> it stands for.\<close>

record KeyMap =
  irCode :: uint32
  actionType :: ActionType

text \<open>
  The key maps of the remotes. Every \<^verbatim>\<open>KeyMap\<close> array of the source ends with a null
  entry \<^verbatim>\<open>{}\<close>, whose code is 0; an array is modelled by the list of its entries before
  that last one, so the end of the list is the closing null entry. The codes are macros of
  \<^verbatim>\<open>ir_codes.h\<close>, so the contents of the arrays are parameters: what is proved holds
  for every content.
\<close>

record tables =
  IR24_Old_Actions :: "KeyMap list"
  IR24CT_Actions :: "KeyMap list"
  IR40_Actions :: "KeyMap list"
  IR44_Actions :: "KeyMap list"
  IR21_Actions :: "KeyMap list"
  IR6_Actions :: "KeyMap list"
  IR9_Actions :: "KeyMap list"
  IR24_Actions :: "KeyMap list"
  Custom_Actions :: "KeyMap list"
  Squeezebox_Actions :: "KeyMap list"
  Roku_Express_Actions :: "KeyMap list"

text \<open>
  The number of enumerators of \<^verbatim>\<open>RemoteType\<close> before \<^verbatim>\<open>ConfigurableRemoteCount\<close>
  (\<^verbatim>\<open>Remote_IR_Disabled\<close> = 0, \<^verbatim>\<open>Remote_IR24_Old\<close>, \<^verbatim>\<open>Remote_IR24_CT\<close>,
  \<^verbatim>\<open>Remote_IR40\<close>, \<^verbatim>\<open>Remote_IR44\<close>, \<^verbatim>\<open>Remote_IR21\<close>, \<^verbatim>\<open>Remote_IR6\<close>,
  \<^verbatim>\<open>Remote_IR9\<close>, \<^verbatim>\<open>Remote_IR24\<close>, \<^verbatim>\<open>Remote_Custom\<close>, \<^verbatim>\<open>Remote_Squeezebox\<close>,
  \<^verbatim>\<open>Remote_Roku_Express\<close> = 11).
\<close>

definition ConfigurableRemoteCount :: nat where
  "ConfigurableRemoteCount = 12"

text \<open>
  The array \<^verbatim>\<open>buttonActions\<close>, read at an index: \<open>None\<close> is the null pointer of the
  slot 0 (disabled, no mapping) and a read outside the array.
\<close>

definition buttonActions :: "tables \<Rightarrow> nat \<Rightarrow> KeyMap list option" where
  "buttonActions T i =
     (if i < ConfigurableRemoteCount then
        [ None,
          Some (IR24_Old_Actions T),
          Some (IR24CT_Actions T),
          Some (IR40_Actions T),
          Some (IR44_Actions T),
          Some (IR21_Actions T),
          Some (IR6_Actions T),
          Some (IR9_Actions T),
          Some (IR24_Actions T),
          Some (Custom_Actions T),
          Some (Squeezebox_Actions T),
          Some (Roku_Express_Actions T) ] ! i
      else None)"

subsection \<open>Action support functions\<close>

text \<open>
  \<^verbatim>\<open>relativeChange\<close>: the sum is computed in \<^verbatim>\<open>int16_t\<close>, which holds every sum of a
  byte and an \<^verbatim>\<open>int8_t\<close>; \<open>amount\<close> is the \<^verbatim>\<open>int8_t\<close>, read as a signed value. The
  function returns the new value of \<open>property\<close>.
\<close>

definition relativeChange :: "byte \<Rightarrow> byte \<Rightarrow> byte \<Rightarrow> byte \<Rightarrow> byte" where
  "relativeChange property amount lowerBoundary higherBoundary =
     (let new_val = uint property + sint amount in
      if new_val > uint higherBoundary then higherBoundary
      else if new_val < uint lowerBoundary then lowerBoundary
      else word_of_int new_val)"

definition brightnessSteps :: "byte list" where
  "brightnessSteps = [5, 7, 9, 12, 16, 20, 26, 34, 43, 56, 72, 93, 119, 154, 198, 255]"

text \<open>The first step above the value, scanning upwards; the value itself when there is none.\<close>

definition incBrightness :: "byte \<Rightarrow> byte" where
  "incBrightness destination =
     (case find (\<lambda>step. step > destination) brightnessSteps of
        Some step \<Rightarrow> step
      | None \<Rightarrow> destination)"

text \<open>The first step below the value, scanning downwards from the last step.\<close>

definition decBrightness :: "byte \<Rightarrow> byte" where
  "decBrightness destination =
     (case find (\<lambda>step. step < destination) (rev brightnessSteps) of
        Some step \<Rightarrow> step
      | None \<Rightarrow> destination)"

definition incBri :: "wled_globals \<Rightarrow> wled_globals" where
  "incBri g = g\<lparr>bri := incBrightness (bri g)\<rparr>"

definition decBri :: "wled_globals \<Rightarrow> wled_globals" where
  "decBri g = g\<lparr>bri := decBrightness (bri g)\<rparr>"

definition incCol3 :: "wled_globals \<Rightarrow> wled_globals" where
  "incCol3 g = g\<lparr>col3 := incBrightness (col3 g)\<rparr>"

definition decCol3 :: "wled_globals \<Rightarrow> wled_globals" where
  "decCol3 g = g\<lparr>col3 := decBrightness (col3 g)\<rparr>"

definition setBri25 :: "wled_globals \<Rightarrow> wled_globals" where
  "setBri25 g = g\<lparr>bri := 63\<rparr>"

definition setBri50 :: "wled_globals \<Rightarrow> wled_globals" where
  "setBri50 g = g\<lparr>bri := 127\<rparr>"

definition setBri75 :: "wled_globals \<Rightarrow> wled_globals" where
  "setBri75 g = g\<lparr>bri := 191\<rparr>"

definition setBri100 :: "wled_globals \<Rightarrow> wled_globals" where
  "setBri100 g = g\<lparr>bri := 255\<rparr>"

definition setWhite :: "ext \<Rightarrow> uint32 \<Rightarrow> uint32 \<Rightarrow> wled_globals \<Rightarrow> wled_globals" where
  "setWhite X rgbColor rgbwColor g =
     (if strip_isRgbw g then (colorFromUint32 X rgbwColor g)\<lparr>effectCurrent := 0\<rparr>
      else colorFromUint24 X rgbColor None g)"

text \<open>The sixteen actions \<^verbatim>\<open>actionColorAqua\<close> ... \<^verbatim>\<open>actionColorYellowish\<close>.\<close>

definition actionColor :: "ext \<Rightarrow> color_macro \<Rightarrow> wled_globals \<Rightarrow> wled_globals" where
  "actionColor X c g = colorFromUint24 X (COLOR X c) (Some False) g"

definition actionColorColdwhite :: "ext \<Rightarrow> wled_globals \<Rightarrow> wled_globals" where
  "actionColorColdwhite X = setWhite X (COLOR X COLOR_COLDWHITE) (COLOR X COLOR2_COLDWHITE)"

definition actionColorColdwhite2 :: "ext \<Rightarrow> wled_globals \<Rightarrow> wled_globals" where
  "actionColorColdwhite2 X = setWhite X (COLOR X COLOR_COLDWHITE2) (COLOR X COLOR2_COLDWHITE2)"

definition actionColorNeutralWhite :: "ext \<Rightarrow> wled_globals \<Rightarrow> wled_globals" where
  "actionColorNeutralWhite X =
     setWhite X (COLOR X COLOR_NEUTRALWHITE) (COLOR X COLOR2_NEUTRALWHITE)"

definition actionColorWarmWhite :: "ext \<Rightarrow> wled_globals \<Rightarrow> wled_globals" where
  "actionColorWarmWhite X = setWhite X (COLOR X COLOR_WARMWHITE) (COLOR X COLOR2_WARMWHITE)"

definition actionColorWarmWhite2 :: "ext \<Rightarrow> wled_globals \<Rightarrow> wled_globals" where
  "actionColorWarmWhite2 X = setWhite X (COLOR X COLOR_WARMWHITE2) (COLOR X COLOR2_WARMWHITE2)"

definition colors :: "color_macro list" where
  "colors =
     [COLOR_RED, COLOR_REDDISH, COLOR_ORANGE, COLOR_YELLOWISH, COLOR_GREEN, COLOR_GREENISH,
      COLOR_TURQUOISE, COLOR_CYAN, COLOR_BLUE, COLOR_DEEPBLUE, COLOR_PURPLE, COLOR_PINK,
      COLOR_WHITE]"

definition num_colors :: nat where
  "num_colors = length colors"

text \<open>
  \<^verbatim>\<open>actionColorRotate\<close>; \<open>None\<close> is a read outside the array \<^verbatim>\<open>colors\<close>, which no
  index that the function itself has stored causes.
\<close>

definition actionColorRotate :: "ext \<Rightarrow> action_state \<Rightarrow> action_state option" where
  "actionColorRotate X s =
     (if unat (color_index s) < num_colors then
        Some (s\<lparr>wled := colorFromUint32 X (COLOR X (colors ! unat (color_index s))) (wled s),
                color_index := of_nat ((unat (color_index s) + 1) mod num_colors)\<rparr>)
      else None)"

definition changeEffectSpeed :: "ext \<Rightarrow> byte \<Rightarrow> wled_globals \<Rightarrow> wled_globals" where
  "changeEffectSpeed X amount g =
     (if effectCurrent g \<noteq> 0 then g\<lparr>effectSpeed := relativeChange (effectSpeed g) amount 0 255\<rparr>
      else changeHue X (sint amount) g)"

definition incEffectSpeed :: "ext \<Rightarrow> wled_globals \<Rightarrow> wled_globals" where
  "incEffectSpeed X = changeEffectSpeed X 10"

definition decEffectSpeed :: "ext \<Rightarrow> wled_globals \<Rightarrow> wled_globals" where
  "decEffectSpeed X = changeEffectSpeed X (- 10)"

definition changeEffectIntensity :: "ext \<Rightarrow> byte \<Rightarrow> wled_globals \<Rightarrow> wled_globals" where
  "changeEffectIntensity X amount g =
     (if effectCurrent g \<noteq> 0
      then g\<lparr>effectIntensity := relativeChange (effectIntensity g) amount 0 255\<rparr>
      else changeSaturation X (sint amount) g)"

definition incEffectIntensity :: "ext \<Rightarrow> wled_globals \<Rightarrow> wled_globals" where
  "incEffectIntensity X = changeEffectIntensity X 10"

definition decEffectIntensity :: "ext \<Rightarrow> wled_globals \<Rightarrow> wled_globals" where
  "decEffectIntensity X = changeEffectIntensity X (- 10)"

subsection \<open>Presets and palettes\<close>

text \<open>
  The loop of \<^verbatim>\<open>presetButtonsConfigured\<close> over the key map of the remote: it runs up to
  the first entry whose code is 0 and increments the byte \<^verbatim>\<open>results[irEnabled]\<close>, here
  \<open>r\<close>, at every entry whose action type is between \<^verbatim>\<open>Action_Preset_10\<close> and
  \<^verbatim>\<open>Action_Preset_10\<close>.
\<close>

fun countPresetButtons :: "KeyMap list \<Rightarrow> byte \<Rightarrow> byte" where
  "countPresetButtons [] r = r"
| "countPresetButtons (keyMap # rest) r =
     (if irCode keyMap = 0 then r
      else countPresetButtons rest
             (if ActionType_value (actionType keyMap) \<ge> ActionType_value Action_Preset_10 \<and>
                 ActionType_value (actionType keyMap) \<le> ActionType_value Action_Preset_10
              then r + 1 else r))"

text \<open>
  \<^verbatim>\<open>presetButtonsConfigured\<close> returns the count and the state with the cache. \<open>None\<close>:
  \<^verbatim>\<open>irEnabled\<close> is outside the arrays \<^verbatim>\<open>results\<close> and \<^verbatim>\<open>buttonActions\<close>, or the
  loop would start at the null pointer of the slot 0.
\<close>

definition presetButtonsConfigured :: "tables \<Rightarrow> action_state \<Rightarrow> (byte \<times> action_state) option" where
  "presetButtonsConfigured T s =
     (let i = unat (irEnabled (wled s)) in
      if \<not> i < ConfigurableRemoteCount then None
      else if results s i = 0 then
        (case buttonActions T i of
           None \<Rightarrow> None
         | Some remoteMapping \<Rightarrow>
             let r = countPresetButtons remoteMapping (results s i)
             in Some (r, s\<lparr>results := (results s)(i := r)\<rparr>))
      else Some (results s i, s))"

definition fallbacks :: "fx_macro list" where
  "fallbacks =
     [FX_MODE_STATIC, FX_MODE_TWINKLE, FX_MODE_BREATH, FX_MODE_COLORTWINKLE,
      FX_MODE_RAINBOW_CYCLE, FX_MODE_RAINBOW, FX_MODE_METEOR_SMOOTH, FX_MODE_FIRE_FLICKER,
      FX_MODE_PALETTE, FX_MODE_TWINKLEFOX]"

definition fallback_count :: nat where
  "fallback_count = length fallbacks"

text \<open>
  \<^verbatim>\<open>actionApplyPreset\<close>. The index \<^verbatim>\<open>(presetNum - 1) % fallback_count\<close> is computed in
  the unsigned 32-bit type of \<^verbatim>\<open>fallback_count\<close>; the effect taken from \<^verbatim>\<open>fallbacks\<close>
  (16 bits) is stored in the byte \<^verbatim>\<open>effectCurrent\<close>.
\<close>

definition actionApplyPreset :: "ext \<Rightarrow> tables \<Rightarrow> byte \<Rightarrow> action_state \<Rightarrow> action_state option" where
  "actionApplyPreset X T presetNum s =
     (let sinceLast = millis (wled s) - presetSelectTime s in
      case (if uint presetNum = currentPreset (wled s) \<and> sinceLast > 500 \<and> sinceLast < 20000
            then map_option (\<lambda>(n, s'). (presetNum + n, s')) (presetButtonsConfigured T s)
            else Some (presetNum, s)) of
        None \<Rightarrow> None
      | Some (presetNum', s') \<Rightarrow>
          let (found, g) = applyPreset X presetNum' (wled s');
              g' = (if \<not> found
                    then g\<lparr>effectPalette := 0,
                           effectCurrent :=
                             ucast (FX_MODE X (fallbacks !
                               (unat ((ucast presetNum' :: uint32) - 1) mod fallback_count)))\<rparr>
                    else g)
          in Some (s'\<lparr>wled := g', presetSelectTime := millis g'\<rparr>))"

text \<open>
  \<^verbatim>\<open>actionChangePreset\<close> and \<^verbatim>\<open>actionChangePalette\<close>: the sum of the two bytes is
  computed in \<^verbatim>\<open>int\<close>, the remainder is stored in a byte. \<open>None\<close> is the division by
  zero.
\<close>

definition actionChangePreset :: "ext \<Rightarrow> byte \<Rightarrow> wled_globals \<Rightarrow> wled_globals option" where
  "actionChangePreset X offset g =
     (if MODE_COUNT X = 0 then None
      else Some (g\<lparr>effectCurrent :=
                     of_nat ((unat (effectCurrent g) + unat offset) mod MODE_COUNT X)\<rparr>))"

definition actionIncPreset :: "ext \<Rightarrow> wled_globals \<Rightarrow> wled_globals option" where
  "actionIncPreset X = actionChangePreset X 1"

definition actionDecPreset :: "ext \<Rightarrow> wled_globals \<Rightarrow> wled_globals option" where
  "actionDecPreset X = actionChangePreset X (- 1)"

definition actionChangePalette :: "ext \<Rightarrow> byte \<Rightarrow> wled_globals \<Rightarrow> wled_globals option" where
  "actionChangePalette X offset g =
     (if getPaletteCount X g = 0 then None
      else Some (g\<lparr>effectPalette :=
                     of_nat ((unat (effectPalette g) + unat offset) mod getPaletteCount X g)\<rparr>))"

definition actionIncPalette :: "ext \<Rightarrow> wled_globals \<Rightarrow> wled_globals option" where
  "actionIncPalette X = actionChangePalette X 1"

definition actionDecPalette :: "ext \<Rightarrow> wled_globals \<Rightarrow> wled_globals option" where
  "actionDecPalette X = actionChangePalette X (- 1)"

subsection \<open>Action definition\<close>

text \<open>
  An \<^verbatim>\<open>Action\<close>: the name, the bound function \<^verbatim>\<open>_action_fn\<close> and the flag
  \<^verbatim>\<open>_is_repeatable\<close>, which the constructor sets to \<^verbatim>\<open>false\<close> when it is not given.
  A bound function returns the new state, or \<open>None\<close> where the C++ has no defined
  behaviour.
\<close>

record Action =
  name :: string
  action_fn :: "action_state \<Rightarrow> action_state option"
  is_repeatable :: bool

text \<open>A function that acts on the globals only, as a bound function.\<close>

definition globally :: "(wled_globals \<Rightarrow> wled_globals) \<Rightarrow> action_state \<Rightarrow> action_state option" where
  "globally f s = Some (s\<lparr>wled := f (wled s)\<rparr>)"

definition globally_opt ::
  "(wled_globals \<Rightarrow> wled_globals option) \<Rightarrow> action_state \<Rightarrow> action_state option" where
  "globally_opt f s = map_option (\<lambda>g. s\<lparr>wled := g\<rparr>) (f (wled s))"

text \<open>The array \<^verbatim>\<open>actions\<close>, indexed by \<^verbatim>\<open>ActionType\<close>.\<close>

primrec actions :: "ext \<Rightarrow> tables \<Rightarrow> ActionType \<Rightarrow> Action" where
  "actions X T Action_PowerOff =
     \<lparr>name = ''Power Off'', action_fn = globally (powerOff X), is_repeatable = False\<rparr>"
| "actions X T Action_PowerOn =
     \<lparr>name = ''Power On'', action_fn = globally (powerOn X), is_repeatable = False\<rparr>"
| "actions X T Action_PowerToggle =
     \<lparr>name = ''Power Toggle'', action_fn = globally (toggleOnOff X), is_repeatable = False\<rparr>"
| "actions X T Action_PowerOffWhite =
     \<lparr>name = ''Power Off White (for RGBW)'', action_fn = globally (powerOffWhite X), is_repeatable = False\<rparr>"
| "actions X T Action_PowerOnWhite =
     \<lparr>name = ''Power On White (for RGBW)'', action_fn = globally (powerOnWhite X), is_repeatable = False\<rparr>"
| "actions X T Action_PowerToggleWhite =
     \<lparr>name = ''Power Toggle White (for RGBW)'', action_fn = globally (toggleOnOffWhite X), is_repeatable = False\<rparr>"
| "actions X T Action_Bright_Up =
     \<lparr>name = ''Brightness Up'', action_fn = globally incBri, is_repeatable = True\<rparr>"
| "actions X T Action_Bright_Down =
     \<lparr>name = ''Brightness Down'', action_fn = globally decBri, is_repeatable = True\<rparr>"
| "actions X T Action_Bright_25 =
     \<lparr>name = ''Brightness 25%'', action_fn = globally setBri25, is_repeatable = False\<rparr>"
| "actions X T Action_Bright_50 =
     \<lparr>name = ''Brightness 50%'', action_fn = globally setBri50, is_repeatable = False\<rparr>"
| "actions X T Action_Bright_75 =
     \<lparr>name = ''Brightness 75%'', action_fn = globally setBri75, is_repeatable = False\<rparr>"
| "actions X T Action_Bright_100 =
     \<lparr>name = ''Brightness 100%'', action_fn = globally setBri100, is_repeatable = False\<rparr>"
| "actions X T Action_White_Bright_Up =
     \<lparr>name = ''White Brightness Up (for RGBW)'', action_fn = globally incCol3, is_repeatable = True\<rparr>"
| "actions X T Action_White_Bright_Down =
     \<lparr>name = ''White Brightness Down (for RGBW)'', action_fn = globally decCol3, is_repeatable = True\<rparr>"
| "actions X T Action_Speed_Up =
     \<lparr>name = ''Speed Up'', action_fn = globally (incEffectSpeed X), is_repeatable = True\<rparr>"
| "actions X T Action_Speed_Down =
     \<lparr>name = ''Speed Down'', action_fn = globally (decEffectSpeed X), is_repeatable = True\<rparr>"
| "actions X T Action_Intensity_Up =
     \<lparr>name = ''Intensity Up'', action_fn = globally (incEffectIntensity X), is_repeatable = True\<rparr>"
| "actions X T Action_Intensity_Down =
     \<lparr>name = ''Intensity Down'', action_fn = globally (decEffectIntensity X), is_repeatable = True\<rparr>"
| "actions X T Action_Preset_1 =
     \<lparr>name = ''Preset 1'', action_fn = actionApplyPreset X T 1, is_repeatable = False\<rparr>"
| "actions X T Action_Preset_2 =
     \<lparr>name = ''Preset 2'', action_fn = actionApplyPreset X T 2, is_repeatable = False\<rparr>"
| "actions X T Action_Preset_3 =
     \<lparr>name = ''Preset 3'', action_fn = actionApplyPreset X T 3, is_repeatable = False\<rparr>"
| "actions X T Action_Preset_4 =
     \<lparr>name = ''Preset 4'', action_fn = actionApplyPreset X T 4, is_repeatable = False\<rparr>"
| "actions X T Action_Preset_5 =
     \<lparr>name = ''Preset 5'', action_fn = actionApplyPreset X T 5, is_repeatable = False\<rparr>"
| "actions X T Action_Preset_6 =
     \<lparr>name = ''Preset 6'', action_fn = actionApplyPreset X T 6, is_repeatable = False\<rparr>"
| "actions X T Action_Preset_7 =
     \<lparr>name = ''Preset 7'', action_fn = actionApplyPreset X T 7, is_repeatable = False\<rparr>"
| "actions X T Action_Preset_8 =
     \<lparr>name = ''Preset 8'', action_fn = actionApplyPreset X T 8, is_repeatable = False\<rparr>"
| "actions X T Action_Preset_9 =
     \<lparr>name = ''Preset 9'', action_fn = actionApplyPreset X T 9, is_repeatable = False\<rparr>"
| "actions X T Action_Preset_10 =
     \<lparr>name = ''Preset 10'', action_fn = actionApplyPreset X T 10, is_repeatable = False\<rparr>"
| "actions X T Action_Preset_Next =
     \<lparr>name = ''Next Preset'', action_fn = globally_opt (actionIncPreset X), is_repeatable = False\<rparr>"
| "actions X T Action_Preset_Prev =
     \<lparr>name = ''Prev Preset'', action_fn = globally_opt (actionDecPreset X), is_repeatable = False\<rparr>"
| "actions X T Action_Palette_Next =
     \<lparr>name = ''Next Palette'', action_fn = globally_opt (actionIncPalette X), is_repeatable = False\<rparr>"
| "actions X T Action_Palette_Prev =
     \<lparr>name = ''Prev Palette'', action_fn = globally_opt (actionDecPalette X), is_repeatable = False\<rparr>"
| "actions X T Action_Color_Aqua =
     \<lparr>name = ''Aqua'', action_fn = globally (actionColor X COLOR_AQUA), is_repeatable = False\<rparr>"
| "actions X T Action_Color_Blue =
     \<lparr>name = ''Blue'', action_fn = globally (actionColor X COLOR_BLUE), is_repeatable = False\<rparr>"
| "actions X T Action_Color_ColdWhite =
     \<lparr>name = ''ColdWhite'', action_fn = globally (actionColorColdwhite X), is_repeatable = False\<rparr>"
| "actions X T Action_Color_ColdWhite2 =
     \<lparr>name = ''ColdWhite2'', action_fn = globally (actionColorColdwhite2 X), is_repeatable = False\<rparr>"
| "actions X T Action_Color_Cyan =
     \<lparr>name = ''Cyan'', action_fn = globally (actionColor X COLOR_CYAN), is_repeatable = False\<rparr>"
| "actions X T Action_Color_Deepblue =
     \<lparr>name = ''Deepblue'', action_fn = globally (actionColor X COLOR_DEEPBLUE), is_repeatable = False\<rparr>"
| "actions X T Action_Color_Green =
     \<lparr>name = ''Green'', action_fn = globally (actionColor X COLOR_GREEN), is_repeatable = False\<rparr>"
| "actions X T Action_Color_Greenish =
     \<lparr>name = ''Greenish'', action_fn = globally (actionColor X COLOR_GREENISH), is_repeatable = False\<rparr>"
| "actions X T Action_Color_Magenta =
     \<lparr>name = ''Magenta'', action_fn = globally (actionColor X COLOR_MAGENTA), is_repeatable = False\<rparr>"
| "actions X T Action_Color_NeutralWhite =
     \<lparr>name = ''NeutralWhite'', action_fn = globally (actionColorNeutralWhite X), is_repeatable = False\<rparr>"
| "actions X T Action_Color_Orange =
     \<lparr>name = ''Orange'', action_fn = globally (actionColor X COLOR_ORANGE), is_repeatable = False\<rparr>"
| "actions X T Action_Color_Pink =
     \<lparr>name = ''Pink'', action_fn = globally (actionColor X COLOR_PINK), is_repeatable = False\<rparr>"
| "actions X T Action_Color_Purple =
     \<lparr>name = ''Purple'', action_fn = globally (actionColor X COLOR_PURPLE), is_repeatable = False\<rparr>"
| "actions X T Action_Color_Red =
     \<lparr>name = ''Red'', action_fn = globally (actionColor X COLOR_RED), is_repeatable = False\<rparr>"
| "actions X T Action_Color_Reddish =
     \<lparr>name = ''Reddish'', action_fn = globally (actionColor X COLOR_REDDISH), is_repeatable = False\<rparr>"
| "actions X T Action_Color_Turquoise =
     \<lparr>name = ''Turquoise'', action_fn = globally (actionColor X COLOR_TURQUOISE), is_repeatable = False\<rparr>"
| "actions X T Action_Color_WarmWhite =
     \<lparr>name = ''WarmWhite'', action_fn = globally (actionColorWarmWhite X), is_repeatable = False\<rparr>"
| "actions X T Action_Color_WarmWhite2 =
     \<lparr>name = ''WarmWhite2'', action_fn = globally (actionColorWarmWhite2 X), is_repeatable = False\<rparr>"
| "actions X T Action_Color_White =
     \<lparr>name = ''White'', action_fn = globally (actionColor X COLOR_WHITE), is_repeatable = False\<rparr>"
| "actions X T Action_Color_Yellow =
     \<lparr>name = ''Yellow'', action_fn = globally (actionColor X COLOR_YELLOW), is_repeatable = False\<rparr>"
| "actions X T Action_Color_Yellowish =
     \<lparr>name = ''Yellowish'', action_fn = globally (actionColor X COLOR_YELLOWISH), is_repeatable = False\<rparr>"
| "actions X T Action_Color_Rotate =
     \<lparr>name = ''Rotate Colors'', action_fn = actionColorRotate X, is_repeatable = False\<rparr>"

subsection \<open>Performing an action\<close>

text \<open>
  The call operator of \<^verbatim>\<open>Action\<close>, for the element \<open>this\<close> of \<^verbatim>\<open>actions\<close>. The debug
  print of the name is left out. The time stamp is taken and the call of the bound
  function is recorded before the bound function runs; when the bound function has no
  defined behaviour, neither has the call.
\<close>

definition Action_call :: "ext \<Rightarrow> tables \<Rightarrow> ActionType \<Rightarrow> ir_state \<Rightarrow> ir_state option" where
  "Action_call X T this s =
     (if lastRepeatableAction s = Some this \<and>
         \<not> is_repeatable (actions X T this) \<and> now s - last_action_time s < 500
      then Some s
      else
        let s1 = (if lastRepeatableAction s = Some this
                  then s\<lparr>trace := trace s @ [Serial_println ''Repeating Action''],
                         repeat_count := repeat_count s + 1\<rparr>
                  else s\<lparr>lastRepeatableAction := Some this, repeat_count := 1\<rparr>);
            s2 = s1\<lparr>last_action_time := now s1, trace := trace s1 @ [Call_action_fn this]\<rparr>
        in case action_fn (actions X T this) (act s2) of
             None \<Rightarrow> None
           | Some a \<Rightarrow>
               Some (s2\<lparr>act := a\<lparr>wled := colorUpdated X (wled a)\<rparr>,
                        trace := trace s2 @ [ColorUpdated]\<rparr>))"

definition repeatLast :: "ext \<Rightarrow> tables \<Rightarrow> ir_state \<Rightarrow> ir_state option" where
  "repeatLast X T s =
     (case lastRepeatableAction s of
        Some a \<Rightarrow> Action_call X T a s
      | None \<Rightarrow> Some s)"

definition clearLastRepeatableAction :: "ir_state \<Rightarrow> ir_state" where
  "clearLastRepeatableAction s = s\<lparr>lastRepeatableAction := None\<rparr>"

subsection \<open>IR code handling\<close>

text \<open>
  The search loop of \<^verbatim>\<open>handleIRCode\<close> over the key map of the remote: the action type
  of the first entry with the code, and \<open>None\<close> when the loop ends at an entry whose code
  is 0.
\<close>

fun findKeyMap :: "KeyMap list \<Rightarrow> uint32 \<Rightarrow> ActionType option" where
  "findKeyMap [] code = None"
| "findKeyMap (keyMap # rest) code =
     (if irCode keyMap = 0 then None
      else if irCode keyMap = code then Some (actionType keyMap)
      else findKeyMap rest code)"

text \<open>
  \<^verbatim>\<open>handleIRCode\<close>. \<open>None\<close>: the loop would read \<^verbatim>\<open>buttonActions\<close> outside the array
  or start at the null pointer of the slot 0, or the action has no defined behaviour.
\<close>

definition handleIRCode :: "ext \<Rightarrow> tables \<Rightarrow> uint32 \<Rightarrow> ir_state \<Rightarrow> ir_state option" where
  "handleIRCode X T code s =
     (if code = 0xFFFFFFFF then repeatLast X T s
      else
        case buttonActions T (unat (irEnabled (wled (act s)))) of
          None \<Rightarrow> None
        | Some remoteMapping \<Rightarrow>
            (case findKeyMap remoteMapping code of
               Some t \<Rightarrow> Action_call X T t s
             | None \<Rightarrow> Some (clearLastRepeatableAction s)))"

text \<open>
  \<^verbatim>\<open>handleIR\<close>, one call from the main loop. \<open>received\<close> is what the decoder has for
  this call: \<open>None\<close> when \<^verbatim>\<open>decode\<close> would return false, the 64-bit \<^verbatim>\<open>results.value\<close>
  otherwise; it is looked at only where the source calls \<^verbatim>\<open>decode\<close>.
\<close>

definition handleIR :: "ext \<Rightarrow> tables \<Rightarrow> uint64 option \<Rightarrow> ir_state \<Rightarrow> ir_state option" where
  "handleIR X T received s =
     (if irEnabled (wled (act s)) = 0 \<or>
         unat (irEnabled (wled (act s))) \<ge> ConfigurableRemoteCount
      then
        (if irrecv s
         then Some (s\<lparr>irrecv := False, trace := trace s @ [IRrecv_disableIRIn, IRrecv_delete]\<rparr>)
         else Some s)
      else if \<not> irrecv s
      then Some (s\<lparr>irrecv := True, trace := trace s @ [IRrecv_new, IRrecv_enableIRIn]\<rparr>)
      else if now s - irCheckedTime s < 120 then Some s
      else
        let s1 = s\<lparr>irCheckedTime := now s, trace := trace s @ [IRrecv_decode]\<rparr> in
        case received of
          None \<Rightarrow> Some s1
        | Some v \<Rightarrow>
            let code = (ucast v :: uint32);
                s2 = s1\<lparr>trace := trace s1 @ [IRrecv_resume]\<rparr>
            in if code = 0 then Some s2
               else handleIRCode X T code (s2\<lparr>trace := trace s2 @ [Serial_printf_IR_recv code]\<rparr>))"

text \<open>The state at start-up: the initial values of the statics, over given globals.\<close>

definition initial_state :: "wled_globals \<Rightarrow> ir_state" where
  "initial_state g =
     \<lparr>act = \<lparr>wled = g, color_index = 0, presetSelectTime = 0, results = (\<lambda>i. 0)\<rparr>,
      lastRepeatableAction = None, repeat_count = 0, last_action_time = 0,
      irrecv = False, irCheckedTime = 0, trace = []\<rparr>"

subsection \<open>Notions used to state the properties\<close>

text \<open>
  The entries of a remote's profile are the entries of its key map before the first one
  whose code is 0, the sentinel.
\<close>

definition entries :: "KeyMap list \<Rightarrow> KeyMap list" where
  "entries profile = takeWhile (\<lambda>keyMap. irCode keyMap \<noteq> 0) profile"

text \<open>
  The resolver in the words of the specification: the action type of the first entry of the
  profile, in declaration order, whose stored code equals the raw code; "not found" is
  \<open>None\<close>.
\<close>

definition resolve :: "KeyMap list \<Rightarrow> uint32 \<Rightarrow> ActionType option" where
  "resolve profile rawCode =
     map_option actionType (find (\<lambda>keyMap. irCode keyMap = rawCode) (entries profile))"

text \<open>The number of entries of a profile that stand for the tenth preset.\<close>

definition tenthPresetEntries :: "KeyMap list \<Rightarrow> nat" where
  "tenthPresetEntries profile =
     length (filter (\<lambda>keyMap. actionType keyMap = Action_Preset_10) (entries profile))"

text \<open>The number of decode attempts, and of calls of the bound function of an action, so far.\<close>

definition decode_attempts :: "ir_state \<Rightarrow> nat" where
  "decode_attempts s = length (filter (\<lambda>e. e = IRrecv_decode) (trace s))"

definition executions :: "ActionType \<Rightarrow> ir_state \<Rightarrow> nat" where
  "executions this s = length (filter (\<lambda>e. e = Call_action_fn this) (trace s))"

text \<open>
  Successive calls of \<^verbatim>\<open>handleIR\<close> from the main loop. Between two calls the rest of the
  firmware runs: every call comes with the globals it finds, the clock among them, and with
  what the decoder has for it.
\<close>

fun handleIR_calls ::
  "ext \<Rightarrow> tables \<Rightarrow> (wled_globals \<times> uint64 option) list \<Rightarrow> ir_state \<Rightarrow> ir_state option" where
  "handleIR_calls X T [] s = Some s"
| "handleIR_calls X T ((g, received) # calls) s =
     (case handleIR X T received (s\<lparr>act := (act s)\<lparr>wled := g\<rparr>\<rparr>) of
        None \<Rightarrow> None
      | Some s' \<Rightarrow> handleIR_calls X T calls s')"

text \<open>
  An uninterrupted run of invocations of one action: nothing else touches the statics of
  \<^verbatim>\<open>Action\<close> in between, and every invocation comes with the globals it finds.
\<close>

fun Action_calls ::
  "ext \<Rightarrow> tables \<Rightarrow> ActionType \<Rightarrow> wled_globals list \<Rightarrow> ir_state \<Rightarrow> ir_state option" where
  "Action_calls X T this [] s = Some s"
| "Action_calls X T this (g # gs) s =
     (case Action_call X T this (s\<lparr>act := (act s)\<lparr>wled := g\<rparr>\<rparr>) of
        None \<Rightarrow> None
      | Some s' \<Rightarrow> Action_calls X T this gs s')"

subsection \<open>An example environment\<close>

text \<open>
  Concrete values on which the model is evaluated: an environment in which toggling the
  power takes 700 ms and every other function of the firmware returns at once and changes
  nothing, no preset is defined, and there are 118 effects and 56 palettes; the key map of
  the six-key remote with the action types of the source and example codes, a three-entry
  key map for the Squeezebox remote, and empty key maps for the others; globals that select
  the six-key remote at the time 1000.
\<close>

definition example_ext :: ext where
  "example_ext =
     \<lparr>MODE_COUNT = 118, getPaletteCount = (\<lambda>g. 56), COLOR = (\<lambda>c. 0), FX_MODE = (\<lambda>m. 0),
      colorFromUint24 = (\<lambda>c b g. g), colorFromUint32 = (\<lambda>c g. g),
      changeHue = (\<lambda>d g. g), changeSaturation = (\<lambda>d g. g),
      applyPreset = (\<lambda>n g. (False, g)),
      powerOff = (\<lambda>g. g), powerOn = (\<lambda>g. g),
      toggleOnOff = (\<lambda>g. g\<lparr>millis := millis g + 700\<rparr>),
      powerOffWhite = (\<lambda>g. g), powerOnWhite = (\<lambda>g. g), toggleOnOffWhite = (\<lambda>g. g),
      colorUpdated = (\<lambda>g. g)\<rparr>"

definition example_tables :: tables where
  "example_tables =
     \<lparr>IR24_Old_Actions = [], IR24CT_Actions = [], IR40_Actions = [], IR44_Actions = [],
      IR21_Actions = [],
      IR6_Actions =
        [\<lparr>irCode = 0xFF0FF0, actionType = Action_PowerToggle\<rparr>,
         \<lparr>irCode = 0xFF8F70, actionType = Action_Bright_Up\<rparr>,
         \<lparr>irCode = 0xFF4FB0, actionType = Action_Bright_Down\<rparr>,
         \<lparr>irCode = 0xFFCF30, actionType = Action_Preset_Next\<rparr>,
         \<lparr>irCode = 0xFF2FD0, actionType = Action_Color_Rotate\<rparr>,
         \<lparr>irCode = 0xFFAF50, actionType = Action_Color_White\<rparr>],
      IR9_Actions = [], IR24_Actions = [], Custom_Actions = [],
      Squeezebox_Actions =
        [\<lparr>irCode = 0x76899867, actionType = Action_Preset_9\<rparr>,
         \<lparr>irCode = 0x76899966, actionType = Action_Preset_10\<rparr>,
         \<lparr>irCode = 0x7689B04F, actionType = Action_Speed_Down\<rparr>],
      Roku_Express_Actions = []\<rparr>"

definition example_globals :: wled_globals where
  "example_globals =
     \<lparr>bri = 128, col3 = 0, effectCurrent = 0, effectSpeed = 128, effectIntensity = 128,
      effectPalette = 0, currentPreset = - 1, strip_isRgbw = False, irEnabled = 6,
      millis = 1000\<rparr>"

text \<open>
  The state after the key of the action \<open>a\<close> has been handled at the time \<open>t\<close>, seen at
  the time 1000.
\<close>

definition example_after :: "ActionType \<Rightarrow> uint32 \<Rightarrow> ir_state" where
  "example_after a t =
     (initial_state example_globals)
       \<lparr>lastRepeatableAction := Some a, repeat_count := 1, last_action_time := t,
        irrecv := True\<rparr>"

text \<open>
  A key map with a code that occurs twice, and with an entry behind a null entry.
\<close>

definition example_duplicates :: "KeyMap list" where
  "example_duplicates =
     [\<lparr>irCode = 5, actionType = Action_PowerOn\<rparr>,
      \<lparr>irCode = 7, actionType = Action_Bright_Up\<rparr>,
      \<lparr>irCode = 7, actionType = Action_Bright_Down\<rparr>,
      \<lparr>irCode = 0, actionType = Action_PowerOff\<rparr>,
      \<lparr>irCode = 9, actionType = Action_Preset_1\<rparr>]"

text \<open>
  The receiver armed, last polled at the time 800; and the state after the call of
  \<^verbatim>\<open>handleIR\<close> that receives the power key of the six-key remote in that state.
\<close>

definition example_armed :: ir_state where
  "example_armed = (example_after Action_Bright_Up 900)\<lparr>irCheckedTime := 800\<rparr>"

definition example_polled :: ir_state where
  "example_polled =
     example_armed
       \<lparr>act := (act example_armed)\<lparr>wled := example_globals\<lparr>millis := 1700\<rparr>\<rparr>,
        lastRepeatableAction := Some Action_PowerToggle, repeat_count := 1,
        last_action_time := 1000, irCheckedTime := 1000,
        trace := [IRrecv_decode, IRrecv_resume, Serial_printf_IR_recv 0xFF0FF0,
                  Call_action_fn Action_PowerToggle, ColorUpdated]\<rparr>"

text \<open>The receiver armed while the selector is 12, the first value outside the range.\<close>

definition example_unselected :: ir_state where
  "example_unselected =
     example_armed\<lparr>act := (act example_armed)\<lparr>wled := example_globals\<lparr>irEnabled := 12\<rparr>\<rparr>\<rparr>"

text \<open>A key map of 256 entries for the tenth preset, with the codes 1 to 256.\<close>

definition example_256 :: "KeyMap list" where
  "example_256 =
     map (\<lambda>n. \<lparr>irCode = of_nat (Suc n), actionType = Action_Preset_10\<rparr>) [0..<256]"

section \<open>Properties\<close>

subsection \<open>Repeats of an action\<close>

text \<open>
  Claim C1. An invocation of the action that is recorded as the last one is suppressed
  when the action is not repeatable and less than 500 ms have passed since the recorded
  time of the last invocation: the state is returned as it was, so the bound function is
  not called, no notification is sent, and the last action, the time stamp and the counter
  are unchanged. When the action is repeatable, or at least 500 ms have passed, the
  invocation counts the repeat, takes the time, calls the bound function and sends the
  notification.
\<close>

theorem Action_call_debounce:
  assumes "lastRepeatableAction s = Some this"
  shows "(\<not> is_repeatable (actions X T this) \<and> now s - last_action_time s < 500 \<longrightarrow>
            Action_call X T this s = Some s) \<and>
         (is_repeatable (actions X T this) \<or> \<not> now s - last_action_time s < 500 \<longrightarrow>
            Action_call X T this s =
              (case action_fn (actions X T this) (act s) of
                 None \<Rightarrow> None
               | Some a \<Rightarrow>
                   Some (s\<lparr>act := a\<lparr>wled := colorUpdated X (wled a)\<rparr>,
                           repeat_count := repeat_count s + 1,
                           last_action_time := now s,
                           trace := trace s @ [Serial_println ''Repeating Action'',
                                               Call_action_fn this, ColorUpdated]\<rparr>)))"
  using assms by (auto simp: Action_call_def Let_def split: option.splits)

theorem Action_call_debounce_witness:
  "lastRepeatableAction (example_after Action_PowerToggle 900) = Some Action_PowerToggle \<and>
   \<not> is_repeatable (actions example_ext example_tables Action_PowerToggle) \<and>
   now (example_after Action_PowerToggle 900)
     - last_action_time (example_after Action_PowerToggle 900) < 500 \<and>
   Action_call example_ext example_tables Action_PowerToggle (example_after Action_PowerToggle 900)
     = Some (example_after Action_PowerToggle 900) \<and>
   \<not> now (example_after Action_PowerToggle 400)
       - last_action_time (example_after Action_PowerToggle 400) < 500 \<and>
   Action_call example_ext example_tables Action_PowerToggle (example_after Action_PowerToggle 400)
     = Some ((example_after Action_PowerToggle 400)
               \<lparr>act := (act (example_after Action_PowerToggle 400))
                          \<lparr>wled := example_globals\<lparr>millis := 1700\<rparr>\<rparr>,
                repeat_count := 2, last_action_time := 1000,
                trace := [Serial_println ''Repeating Action'',
                          Call_action_fn Action_PowerToggle, ColorUpdated]\<rparr>) \<and>
   is_repeatable (actions example_ext example_tables Action_Bright_Up) \<and>
   Action_call example_ext example_tables Action_Bright_Up (example_after Action_Bright_Up 900)
     = Some ((example_after Action_Bright_Up 900)
               \<lparr>act := (act (example_after Action_Bright_Up 900))
                          \<lparr>wled := example_globals\<lparr>bri := 154\<rparr>\<rparr>,
                repeat_count := 2, last_action_time := 1000,
                trace := [Serial_println ''Repeating Action'',
                          Call_action_fn Action_Bright_Up, ColorUpdated]\<rparr>)"
  using Action_call_debounce
          [of "example_after Action_PowerToggle 900" Action_PowerToggle example_ext example_tables]
        Action_call_debounce
          [of "example_after Action_PowerToggle 400" Action_PowerToggle example_ext example_tables]
        Action_call_debounce
          [of "example_after Action_Bright_Up 900" Action_Bright_Up example_ext example_tables]
  by (simp add: example_after_def initial_state_def example_globals_def example_ext_def
        globally_def incBri_def incBrightness_def brightnessSteps_def)

subsection \<open>Looking up a code\<close>

lemma findKeyMap_resolve: "findKeyMap profile code = resolve profile code"
  by (induction profile) (auto simp: resolve_def entries_def)

lemma findKeyMap_zero: "findKeyMap profile 0 = None"
  by (induction profile) auto

lemma findKeyMap_None_iff:
  "findKeyMap profile code = None \<longleftrightarrow> code \<notin> irCode ` set (entries profile)"
  by (induction profile) (auto simp: entries_def)

text \<open>
  Claim C2. For every key map and every code, the search loop of \<^verbatim>\<open>handleIRCode\<close>
  returns what the resolver of the specification returns: the action type of the first
  entry, in the order of the array, whose code is the received one, also when the code
  occurs more than once, and "not found" when the sentinel is reached first. The code 0 is
  never found. A received code other than the repeat code is handled by performing the
  action so resolved, or by clearing the last action when there is none.
\<close>

theorem findKeyMap_first_match:
  "findKeyMap profile code = resolve profile code \<and>
   findKeyMap profile 0 = None \<and>
   (code \<noteq> 0xFFFFFFFF \<and> buttonActions T (unat (irEnabled (wled (act s)))) = Some profile \<longrightarrow>
      handleIRCode X T code s =
        (case resolve profile code of
           Some t \<Rightarrow> Action_call X T t s
         | None \<Rightarrow> Some (clearLastRepeatableAction s)))"
  by (simp add: findKeyMap_resolve [symmetric] findKeyMap_zero handleIRCode_def)

theorem findKeyMap_first_match_witness:
  "(0xFF8F70 :: uint32) \<noteq> 0xFFFFFFFF \<and>
   buttonActions example_tables (unat (irEnabled (wled (act (initial_state example_globals)))))
     = Some (IR6_Actions example_tables) \<and>
   resolve (IR6_Actions example_tables) 0xFF8F70 = Some Action_Bright_Up \<and>
   handleIRCode example_ext example_tables 0xFF8F70 (initial_state example_globals)
     = Action_call example_ext example_tables Action_Bright_Up (initial_state example_globals) \<and>
   findKeyMap example_duplicates 7 = Some Action_Bright_Up \<and>
   findKeyMap example_duplicates 9 = None"
  using findKeyMap_first_match
          [of "IR6_Actions example_tables" "0xFF8F70" example_tables
              "initial_state example_globals" example_ext]
        findKeyMap_first_match [of example_duplicates 7]
        findKeyMap_first_match [of example_duplicates 9]
  by (simp add: buttonActions_def ConfigurableRemoteCount_def example_tables_def
        initial_state_def example_globals_def resolve_def entries_def example_duplicates_def)

text \<open>
  Claim C3. A received code that is not the repeat code and is not the code of an entry of
  the active profile is handled by clearing the last action and nothing else: the trace is
  unchanged, so no bound function is called and no notification is sent. A repeat code
  that follows does nothing.
\<close>

theorem handleIRCode_unknown_code:
  assumes "code \<noteq> 0xFFFFFFFF"
    and "buttonActions T (unat (irEnabled (wled (act s)))) = Some profile"
    and "code \<notin> irCode ` set (entries profile)"
  shows "handleIRCode X T code s = Some (s\<lparr>lastRepeatableAction := None\<rparr>) \<and>
         handleIRCode X T 0xFFFFFFFF (s\<lparr>lastRepeatableAction := None\<rparr>)
           = Some (s\<lparr>lastRepeatableAction := None\<rparr>)"
  using assms findKeyMap_None_iff [of profile code]
  by (simp add: handleIRCode_def repeatLast_def clearLastRepeatableAction_def)

theorem handleIRCode_unknown_code_witness:
  "(0x1234 :: uint32) \<noteq> 0xFFFFFFFF \<and>
   buttonActions example_tables (unat (irEnabled (wled (act (example_after Action_Bright_Up 900)))))
     = Some (IR6_Actions example_tables) \<and>
   (0x1234 :: uint32) \<notin> irCode ` set (entries (IR6_Actions example_tables)) \<and>
   handleIRCode example_ext example_tables 0x1234 (example_after Action_Bright_Up 900)
     = Some ((example_after Action_Bright_Up 900)\<lparr>lastRepeatableAction := None\<rparr>) \<and>
   handleIRCode example_ext example_tables 0xFFFFFFFF
       ((example_after Action_Bright_Up 900)\<lparr>lastRepeatableAction := None\<rparr>)
     = Some ((example_after Action_Bright_Up 900)\<lparr>lastRepeatableAction := None\<rparr>)"
proof -
  have h1: "(0x1234 :: uint32) \<noteq> 0xFFFFFFFF" by simp
  have h2: "buttonActions example_tables
              (unat (irEnabled (wled (act (example_after Action_Bright_Up 900)))))
            = Some (IR6_Actions example_tables)"
    by (simp add: buttonActions_def ConfigurableRemoteCount_def example_after_def
          initial_state_def example_globals_def)
  have h3: "(0x1234 :: uint32) \<notin> irCode ` set (entries (IR6_Actions example_tables))"
    by (simp add: example_tables_def entries_def)
  from handleIRCode_unknown_code [OF h1 h2 h3, of example_ext] h1 h2 h3
  show ?thesis by simp
qed

text \<open>
  Claim C4. The repeat code 0xFFFFFFFF is handled without a look at \<^verbatim>\<open>buttonActions\<close>,
  whatever \<^verbatim>\<open>irEnabled\<close> is: with no last action recorded the state is returned as it
  was, and with a last action recorded the result is that of invoking this action, under
  the rules for repeats.
\<close>

theorem handleIRCode_repeat_code:
  "(lastRepeatableAction s = None \<longrightarrow> handleIRCode X T 0xFFFFFFFF s = Some s) \<and>
   (\<forall>a. lastRepeatableAction s = Some a \<longrightarrow>
          handleIRCode X T 0xFFFFFFFF s = Action_call X T a s)"
  by (simp add: handleIRCode_def repeatLast_def)

theorem handleIRCode_repeat_code_witness:
  "lastRepeatableAction (initial_state (example_globals\<lparr>irEnabled := 0\<rparr>)) = None \<and>
   buttonActions example_tables
     (unat (irEnabled (wled (act (initial_state (example_globals\<lparr>irEnabled := 0\<rparr>)))))) = None \<and>
   handleIRCode example_ext example_tables 0xFFFFFFFF
       (initial_state (example_globals\<lparr>irEnabled := 0\<rparr>))
     = Some (initial_state (example_globals\<lparr>irEnabled := 0\<rparr>)) \<and>
   lastRepeatableAction (example_after Action_Bright_Up 900) = Some Action_Bright_Up \<and>
   handleIRCode example_ext example_tables 0xFFFFFFFF (example_after Action_Bright_Up 900)
     = Some ((example_after Action_Bright_Up 900)
               \<lparr>act := (act (example_after Action_Bright_Up 900))
                          \<lparr>wled := example_globals\<lparr>bri := 154\<rparr>\<rparr>,
                repeat_count := 2, last_action_time := 1000,
                trace := [Serial_println ''Repeating Action'',
                          Call_action_fn Action_Bright_Up, ColorUpdated]\<rparr>)"
  using handleIRCode_repeat_code
          [of "initial_state (example_globals\<lparr>irEnabled := 0\<rparr>)" example_ext example_tables]
        handleIRCode_repeat_code
          [of "example_after Action_Bright_Up 900" example_ext example_tables]
  by (simp add: Action_call_def example_after_def initial_state_def example_globals_def
        example_ext_def globally_def incBri_def incBrightness_def brightnessSteps_def
        buttonActions_def ConfigurableRemoteCount_def)

subsection \<open>The poller\<close>

text \<open>
  Claim C5. A call of \<^verbatim>\<open>handleIR\<close> with the selector 0 or outside the range of the
  profiles releases the decoder when it is held and returns, with no decode attempt; the
  state it returns holds no decoder and a further such call changes nothing. A call with a
  valid selector while no decoder is held creates and enables the decoder and returns,
  with no decode attempt.
\<close>

theorem handleIR_disabled_or_arming:
  "(irEnabled (wled (act s)) = 0 \<or> unat (irEnabled (wled (act s))) \<ge> ConfigurableRemoteCount \<longrightarrow>
      handleIR X T received s =
        Some (if irrecv s
              then s\<lparr>irrecv := False, trace := trace s @ [IRrecv_disableIRIn, IRrecv_delete]\<rparr>
              else s) \<and>
      (\<forall>s'. handleIR X T received s = Some s' \<longrightarrow>
         \<not> irrecv s' \<and> decode_attempts s' = decode_attempts s \<and>
         handleIR X T received' s' = Some s')) \<and>
   (irEnabled (wled (act s)) \<noteq> 0 \<and> unat (irEnabled (wled (act s))) < ConfigurableRemoteCount \<and>
    \<not> irrecv s \<longrightarrow>
      handleIR X T received s =
        Some (s\<lparr>irrecv := True, trace := trace s @ [IRrecv_new, IRrecv_enableIRIn]\<rparr>))"
  by (auto simp: handleIR_def decode_attempts_def)

theorem handleIR_disabled_or_arming_witness:
  "unat (irEnabled (wled (act example_unselected))) \<ge> ConfigurableRemoteCount \<and>
   irrecv example_unselected \<and>
   handleIR example_ext example_tables (Some 0xFF0FF0) example_unselected
     = Some (example_unselected
               \<lparr>irrecv := False, trace := [IRrecv_disableIRIn, IRrecv_delete]\<rparr>) \<and>
   handleIR example_ext example_tables (Some 0xFF0FF0)
       (example_unselected\<lparr>irrecv := False, trace := [IRrecv_disableIRIn, IRrecv_delete]\<rparr>)
     = Some (example_unselected
               \<lparr>irrecv := False, trace := [IRrecv_disableIRIn, IRrecv_delete]\<rparr>) \<and>
   irEnabled (wled (act (initial_state example_globals))) \<noteq> 0 \<and>
   unat (irEnabled (wled (act (initial_state example_globals)))) < ConfigurableRemoteCount \<and>
   \<not> irrecv (initial_state example_globals) \<and>
   handleIR example_ext example_tables (Some 0xFF0FF0) (initial_state example_globals)
     = Some ((initial_state example_globals)
               \<lparr>irrecv := True, trace := [IRrecv_new, IRrecv_enableIRIn]\<rparr>)"
  using handleIR_disabled_or_arming
          [of example_unselected example_ext example_tables "Some 0xFF0FF0" "Some 0xFF0FF0"]
        handleIR_disabled_or_arming
          [of "initial_state example_globals" example_ext example_tables "Some 0xFF0FF0"]
  by (simp add: example_unselected_def example_armed_def example_after_def initial_state_def
        example_globals_def ConfigurableRemoteCount_def)

lemma Action_call_poller:
  assumes "Action_call X T this s = Some s'"
  shows "irCheckedTime s' = irCheckedTime s \<and> irrecv s' = irrecv s \<and>
         decode_attempts s' = decode_attempts s"
  using assms
  by (auto simp: Action_call_def Let_def decode_attempts_def split: if_splits option.splits)

lemma handleIRCode_poller:
  assumes "handleIRCode X T code s = Some s'"
  shows "irCheckedTime s' = irCheckedTime s \<and> irrecv s' = irrecv s \<and>
         decode_attempts s' = decode_attempts s"
  using assms Action_call_poller
  by (auto simp: handleIRCode_def repeatLast_def clearLastRepeatableAction_def decode_attempts_def
      split: if_splits option.splits)

lemma handleIR_no_poll:
  assumes "now s - t < 120" and "irCheckedTime s = t"
  shows "\<exists>s'. handleIR X T received s = Some s' \<and> irCheckedTime s' = t \<and>
              decode_attempts s' = decode_attempts s"
  using assms by (auto simp: handleIR_def decode_attempts_def)

lemma handleIR_calls_no_poll:
  assumes "\<forall>(g, received) \<in> set calls. millis g - irCheckedTime s < 120"
  shows "\<exists>s'. handleIR_calls X T calls s = Some s' \<and> irCheckedTime s' = irCheckedTime s \<and>
              decode_attempts s' = decode_attempts s"
  using assms
proof (induction calls arbitrary: s)
  case Nil
  then show ?case by simp
next
  case (Cons c calls)
  obtain g received where c: "c = (g, received)" by (cases c)
  let ?s = "s\<lparr>act := (act s)\<lparr>wled := g\<rparr>\<rparr>"
  from Cons.prems c have "now ?s - irCheckedTime s < 120" by simp
  moreover have "irCheckedTime ?s = irCheckedTime s" by simp
  ultimately obtain s1 where s1: "handleIR X T received ?s = Some s1"
      "irCheckedTime s1 = irCheckedTime s" "decode_attempts s1 = decode_attempts ?s"
    using handleIR_no_poll by blast
  from Cons.prems s1 have "\<forall>(g, received) \<in> set calls. millis g - irCheckedTime s1 < 120"
    by simp
  from Cons.IH [OF this] s1 c show ?case by (simp add: decode_attempts_def)
qed

lemma handleIR_polled:
  assumes "handleIR X T received s = Some s'" and "decode_attempts s' \<noteq> decode_attempts s"
  shows "irCheckedTime s' = now s \<and> decode_attempts s' = Suc (decode_attempts s) \<and>
         irEnabled (wled (act s)) \<noteq> 0 \<and> unat (irEnabled (wled (act s))) < ConfigurableRemoteCount \<and>
         irrecv s \<and> \<not> now s - irCheckedTime s < 120"
proof -
  have armed: "irEnabled (wled (act s)) \<noteq> 0 \<and> unat (irEnabled (wled (act s))) < ConfigurableRemoteCount \<and>
         irrecv s \<and> \<not> now s - irCheckedTime s < 120"
    using assms by (auto simp: handleIR_def decode_attempts_def split: if_splits)
  let ?s1 = "s\<lparr>irCheckedTime := now s, trace := trace s @ [IRrecv_decode]\<rparr>"
  show ?thesis
  proof (cases received)
    case None
    with assms armed show ?thesis by (auto simp: handleIR_def decode_attempts_def)
  next
    case (Some v)
    show ?thesis
    proof (cases "(ucast v :: uint32) = 0")
      case True
      with Some assms armed show ?thesis by (auto simp: handleIR_def decode_attempts_def Let_def)
    next
      case False
      let ?s3 = "?s1\<lparr>trace := trace ?s1 @ [IRrecv_resume, Serial_printf_IR_recv (ucast v)]\<rparr>"
      from Some False assms(1) armed have "handleIRCode X T (ucast v) ?s3 = Some s'"
        by (simp add: handleIR_def Let_def)
      from handleIRCode_poller [OF this] armed show ?thesis
        by (simp add: decode_attempts_def)
    qed
  qed
qed


text \<open>
  Claim C6. A call of \<^verbatim>\<open>handleIR\<close> with the receiver armed, less than 120 ms after the
  time of the last poll, returns the state as it was, so it does not touch the decoder. A
  call that makes a decode attempt makes one, and has recorded the time at which it was
  entered as the time of the last poll, whatever time the action it performs takes. After
  such a call no later call made less than 120 ms after it makes a decode attempt,
  however many such calls there are: of two calls less than 120 ms apart at most one
  decodes.
\<close>

theorem handleIR_poll_interval:
  "(irEnabled (wled (act s)) \<noteq> 0 \<and> unat (irEnabled (wled (act s))) < ConfigurableRemoteCount \<and>
    irrecv s \<and> now s - irCheckedTime s < 120 \<longrightarrow> handleIR X T received s = Some s) \<and>
   (\<forall>s1. handleIR X T received s = Some s1 \<and> decode_attempts s1 \<noteq> decode_attempts s \<longrightarrow>
      irCheckedTime s1 = now s \<and> decode_attempts s1 = Suc (decode_attempts s) \<and>
      (\<forall>calls. (\<forall>(g, r) \<in> set calls. millis g - now s < 120) \<longrightarrow>
         (\<exists>s2. handleIR_calls X T calls s1 = Some s2 \<and>
               decode_attempts s2 = decode_attempts s1)))"
proof (intro conjI allI impI)
  assume "irEnabled (wled (act s)) \<noteq> 0 \<and> unat (irEnabled (wled (act s))) < ConfigurableRemoteCount \<and>
    irrecv s \<and> now s - irCheckedTime s < 120"
  then show "handleIR X T received s = Some s" by (simp add: handleIR_def)
next
  fix s1
  assume a: "handleIR X T received s = Some s1 \<and> decode_attempts s1 \<noteq> decode_attempts s"
  then show "irCheckedTime s1 = now s" using handleIR_polled by blast
  from a show "decode_attempts s1 = Suc (decode_attempts s)" using handleIR_polled by blast
next
  fix s1 and calls :: "(wled_globals \<times> uint64 option) list"
  assume a: "handleIR X T received s = Some s1 \<and> decode_attempts s1 \<noteq> decode_attempts s"
    and c: "\<forall>(g, r) \<in> set calls. millis g - now s < 120"
  from a have "irCheckedTime s1 = now s" using handleIR_polled by blast
  with c have "\<forall>(g, r) \<in> set calls. millis g - irCheckedTime s1 < 120" by simp
  from handleIR_calls_no_poll [OF this]
  show "\<exists>s2. handleIR_calls X T calls s1 = Some s2 \<and> decode_attempts s2 = decode_attempts s1"
    by blast
qed



theorem handleIR_poll_interval_witness:
  "irEnabled (wled (act (example_armed\<lparr>irCheckedTime := 900\<rparr>))) \<noteq> 0 \<and>
   unat (irEnabled (wled (act (example_armed\<lparr>irCheckedTime := 900\<rparr>)))) < ConfigurableRemoteCount \<and>
   irrecv (example_armed\<lparr>irCheckedTime := 900\<rparr>) \<and>
   now (example_armed\<lparr>irCheckedTime := 900\<rparr>) - irCheckedTime (example_armed\<lparr>irCheckedTime := 900\<rparr>) < 120 \<and>
   handleIR example_ext example_tables (Some 0xFF0FF0) (example_armed\<lparr>irCheckedTime := 900\<rparr>)
     = Some (example_armed\<lparr>irCheckedTime := 900\<rparr>) \<and>
   handleIR example_ext example_tables (Some 0xFF0FF0) example_armed = Some example_polled \<and>
   decode_attempts example_armed = 0 \<and> decode_attempts example_polled = 1 \<and>
   irCheckedTime example_polled = now example_armed \<and>
   millis (example_globals\<lparr>millis := 1050\<rparr>) - now example_armed < 120 \<and>
   millis (example_globals\<lparr>millis := 1119\<rparr>) - now example_armed < 120 \<and>
   (\<exists>s2. handleIR_calls example_ext example_tables
            [(example_globals\<lparr>millis := 1050\<rparr>, Some 0xFF0FF0),
             (example_globals\<lparr>millis := 1119\<rparr>, Some 0xFF8F70)] example_polled = Some s2 \<and>
         decode_attempts s2 = 1)"
proof -
  have p: "handleIR example_ext example_tables (Some 0xFF0FF0) example_armed = Some example_polled"
    by (simp add: handleIR_def handleIRCode_def Action_call_def example_polled_def
        example_armed_def example_after_def initial_state_def example_globals_def
        example_ext_def example_tables_def buttonActions_def ConfigurableRemoteCount_def
        globally_def)
  have d: "decode_attempts example_armed = 0" "decode_attempts example_polled = 1"
    by (simp_all add: decode_attempts_def example_polled_def example_armed_def
        example_after_def initial_state_def)
  have c: "\<forall>(g, r) \<in> set [(example_globals\<lparr>millis := 1050\<rparr>, Some (0xFF0FF0 :: uint64)),
                    (example_globals\<lparr>millis := 1119\<rparr>, Some 0xFF8F70)].
      millis g - now example_armed < 120"
    by (simp add: example_armed_def example_after_def initial_state_def example_globals_def)
  have r: "irEnabled (wled (act (example_armed\<lparr>irCheckedTime := 900\<rparr>))) \<noteq> 0 \<and>
   unat (irEnabled (wled (act (example_armed\<lparr>irCheckedTime := 900\<rparr>)))) < ConfigurableRemoteCount \<and>
   irrecv (example_armed\<lparr>irCheckedTime := 900\<rparr>) \<and>
   now (example_armed\<lparr>irCheckedTime := 900\<rparr>) - irCheckedTime (example_armed\<lparr>irCheckedTime := 900\<rparr>) < 120"
    by (simp add: example_armed_def example_after_def initial_state_def example_globals_def
        ConfigurableRemoteCount_def)
  note w1 = handleIR_poll_interval [of "example_armed\<lparr>irCheckedTime := 900\<rparr>" example_ext example_tables
                  "Some 0xFF0FF0"]
  note w2 = handleIR_poll_interval [of example_armed example_ext example_tables "Some 0xFF0FF0"]
  from w1 r have a1: "handleIR example_ext example_tables (Some 0xFF0FF0)
      (example_armed\<lparr>irCheckedTime := 900\<rparr>) = Some (example_armed\<lparr>irCheckedTime := 900\<rparr>)"
    by (rule conjunct1 [THEN mp])
  from p d have pd: "handleIR example_ext example_tables (Some 0xFF0FF0) example_armed
      = Some example_polled \<and> decode_attempts example_polled \<noteq> decode_attempts example_armed"
    by simp
  note a2 = w2 [THEN conjunct2, THEN spec, THEN mp, OF pd]
  note a3 = a2 [THEN conjunct2, THEN conjunct2, THEN spec, THEN mp, OF c]
  from a2 have a4: "irCheckedTime example_polled = now example_armed" by (rule conjunct1)
  from a3 d have a5: "\<exists>s2. handleIR_calls example_ext example_tables
            [(example_globals\<lparr>millis := 1050\<rparr>, Some 0xFF0FF0),
             (example_globals\<lparr>millis := 1119\<rparr>, Some 0xFF8F70)] example_polled = Some s2 \<and>
         decode_attempts s2 = 1"
    by simp
  show ?thesis
    apply (intro conjI)
    using r apply simp
    using r apply simp
    using r apply simp
    using r apply simp
    apply (rule a1)
    apply (rule p)
    apply (rule d)
    apply (rule d)
    apply (rule a4)
    using c apply simp
    using c apply simp
    apply (rule a5)
    done
qed

subsection \<open>The time stamp and the counter of repeats\<close>

text \<open>
  Claim C8. An invocation that is not suppressed sets the time of the last invocation to
  the clock reading at which it was entered, taken before the bound function runs: the
  bound function is applied to the state as the invocation found it, and the time stamp in
  the state returned is the clock of that state, not the clock after the bound function
  and the notification, however long they take.
\<close>

theorem Action_call_timestamp:
  assumes "\<not> (lastRepeatableAction s = Some this \<and> \<not> is_repeatable (actions X T this) \<and>
              now s - last_action_time s < 500)"
  shows "(\<forall>a. action_fn (actions X T this) (act s) = Some a \<longrightarrow>
            (\<exists>s'. Action_call X T this s = Some s' \<and> last_action_time s' = now s \<and>
                  act s' = a\<lparr>wled := colorUpdated X (wled a)\<rparr>)) \<and>
         (\<forall>s'. Action_call X T this s = Some s' \<longrightarrow>
            last_action_time s' = now s \<and>
            (\<exists>a. action_fn (actions X T this) (act s) = Some a \<and>
                 act s' = a\<lparr>wled := colorUpdated X (wled a)\<rparr>))"
  using assms by (auto simp: Action_call_def Let_def split: if_splits option.splits)

theorem Action_call_timestamp_witness:
  "\<not> (lastRepeatableAction (initial_state example_globals) = Some Action_PowerToggle \<and>
       \<not> is_repeatable (actions example_ext example_tables Action_PowerToggle) \<and>
       now (initial_state example_globals) - last_action_time (initial_state example_globals) < 500) \<and>
   Action_call example_ext example_tables Action_PowerToggle (initial_state example_globals)
     = Some ((initial_state example_globals)
               \<lparr>act := (act (initial_state example_globals))
                          \<lparr>wled := example_globals\<lparr>millis := 1700\<rparr>\<rparr>,
                lastRepeatableAction := Some Action_PowerToggle, repeat_count := 1,
                last_action_time := 1000,
                trace := [Call_action_fn Action_PowerToggle, ColorUpdated]\<rparr>) \<and>
   now (initial_state example_globals) = 1000"
proof -
  have h: "\<not> (lastRepeatableAction (initial_state example_globals) = Some Action_PowerToggle \<and>
       \<not> is_repeatable (actions example_ext example_tables Action_PowerToggle) \<and>
       now (initial_state example_globals) - last_action_time (initial_state example_globals) < 500)"
    by (simp add: initial_state_def)
  have c: "Action_call example_ext example_tables Action_PowerToggle (initial_state example_globals)
     = Some ((initial_state example_globals)
               \<lparr>act := (act (initial_state example_globals))
                          \<lparr>wled := example_globals\<lparr>millis := 1700\<rparr>\<rparr>,
                lastRepeatableAction := Some Action_PowerToggle, repeat_count := 1,
                last_action_time := 1000,
                trace := [Call_action_fn Action_PowerToggle, ColorUpdated]\<rparr>)"
    by (simp add: Action_call_def initial_state_def example_globals_def example_ext_def
        globally_def)
  from Action_call_timestamp [OF h, THEN conjunct2, THEN spec, THEN mp, OF c] h c
  show ?thesis
    by (simp add: initial_state_def example_globals_def)
qed


lemma Action_call_repeatable:
  assumes "is_repeatable (actions X T this)"
    and "action_fn (actions X T this) (act s) = Some a"
  shows "Action_call X T this s =
           Some (s\<lparr>act := a\<lparr>wled := colorUpdated X (wled a)\<rparr>,
                   lastRepeatableAction := Some this,
                   repeat_count := (if lastRepeatableAction s = Some this
                                    then repeat_count s + 1 else 1),
                   last_action_time := now s,
                   trace := trace s @
                     (if lastRepeatableAction s = Some this
                      then [Serial_println ''Repeating Action''] else []) @
                     [Call_action_fn this, ColorUpdated]\<rparr>)"
  using assms by (simp add: Action_call_def Let_def)

lemma Action_calls_repeatable:
  assumes "is_repeatable (actions X T this)"
    and "\<forall>a. action_fn (actions X T this) a \<noteq> None"
    and "lastRepeatableAction s = Some this"
  shows "\<exists>s'. Action_calls X T this gs s = Some s' \<and>
              lastRepeatableAction s' = Some this \<and>
              repeat_count s' = repeat_count s + of_nat (length gs) \<and>
              executions this s' = executions this s + length gs"
  using assms(3)
proof (induction gs arbitrary: s)
  case Nil
  then show ?case by simp
next
  case (Cons g gs)
  let ?s = "s\<lparr>act := (act s)\<lparr>wled := g\<rparr>\<rparr>"
  from assms(2) obtain a where a: "action_fn (actions X T this) (act ?s) = Some a" by blast
  let ?s1 = "?s\<lparr>act := a\<lparr>wled := colorUpdated X (wled a)\<rparr>,
                   lastRepeatableAction := Some this,
                   repeat_count := repeat_count s + 1,
                   last_action_time := now ?s,
                   trace := trace s @ [Serial_println ''Repeating Action'', Call_action_fn this, ColorUpdated]\<rparr>"
  from Action_call_repeatable [OF assms(1) a] Cons.prems
  have c: "Action_call X T this ?s = Some ?s1" by simp
  have "lastRepeatableAction ?s1 = Some this" by simp
  from Cons.IH [OF this] obtain s' where s': "Action_calls X T this gs ?s1 = Some s'"
     "lastRepeatableAction s' = Some this"
     "repeat_count s' = repeat_count ?s1 + of_nat (length gs)"
     "executions this s' = executions this ?s1 + length gs" by blast
  from c s' show ?case by (simp add: executions_def)
qed


lemma Action_calls_fresh_run:
  assumes "is_repeatable (actions X T this)"
    and "\<forall>a. action_fn (actions X T this) a \<noteq> None"
    and "lastRepeatableAction s \<noteq> Some this"
  shows "\<exists>s'. Action_calls X T this (g # gs) s = Some s' \<and>
              lastRepeatableAction s' = Some this \<and>
              repeat_count s' = of_nat (Suc (length gs)) \<and>
              executions this s' = executions this s + Suc (length gs)"
proof -
  let ?s = "s\<lparr>act := (act s)\<lparr>wled := g\<rparr>\<rparr>"
  from assms(2) obtain a where a: "action_fn (actions X T this) (act ?s) = Some a" by blast
  let ?s1 = "?s\<lparr>act := a\<lparr>wled := colorUpdated X (wled a)\<rparr>,
                   lastRepeatableAction := Some this, repeat_count := 1,
                   last_action_time := now ?s,
                   trace := trace s @ [Call_action_fn this, ColorUpdated]\<rparr>"
  from Action_call_repeatable [OF assms(1) a] assms(3)
  have c: "Action_call X T this ?s = Some ?s1" by simp
  have "lastRepeatableAction ?s1 = Some this" by simp
  from Action_calls_repeatable [OF assms(1,2) this, of gs]
  obtain s' where s': "Action_calls X T this gs ?s1 = Some s'"
     "lastRepeatableAction s' = Some this"
     "repeat_count s' = repeat_count ?s1 + of_nat (length gs)"
     "executions this s' = executions this ?s1 + length gs" by blast
  from c s' show ?thesis by (simp add: executions_def)
qed

lemma byte_less_Suc:
  fixes c :: byte
  assumes "c \<noteq> 255"
  shows "c < c + 1"
proof -
  have "unat c < 256" using unsigned_less [of c, where ?'a = nat] by simp
  moreover have "unat c \<noteq> 255"
  proof
    assume "unat c = 255"
    then have "of_nat (unat c) = (of_nat 255 :: byte)" by simp
    with assms show False by simp
  qed
  ultimately have "unat c + 1 < 256" by simp
  then have "unat (c + 1) = unat c + 1"
    by (simp add: unat_word_ariths)
  then show ?thesis by (simp add: word_less_nat_alt)
qed

lemma repeatable_returns:
  "is_repeatable (actions X T this) \<Longrightarrow> action_fn (actions X T this) a \<noteq> None"
  by (cases this) (simp_all add: globally_def)

lemma Bright_Up_total:
  "is_repeatable (actions X T Action_Bright_Up) \<and>
   (\<forall>a. action_fn (actions X T Action_Bright_Up) a \<noteq> None)"
  by (simp add: globally_def)

text \<open>
  Claim C9, as the code has it. For a repeatable action no invocation is suppressed,
  whatever the times: every invocation returns and calls the bound function once. The counter is a byte: a fresh invocation sets it to 1 and a repeat adds 1 modulo
  256, so a repeat increases it strictly unless it is 255; after an uninterrupted run of
  \<open>n\<close> invocations that starts fresh, the counter is \<open>n\<close> modulo 256.
\<close>

theorem Action_calls_repeat_count:
  assumes "is_repeatable (actions X T this)"
  shows "(\<exists>s'. Action_call X T this s = Some s' \<and>
               executions this s' = Suc (executions this s) \<and>
               lastRepeatableAction s' = Some this \<and>
               repeat_count s' =
                 (if lastRepeatableAction s = Some this then repeat_count s + 1 else 1) \<and>
               (lastRepeatableAction s = Some this \<and> repeat_count s \<noteq> 255 \<longrightarrow>
                  repeat_count s < repeat_count s')) \<and>
         (lastRepeatableAction s \<noteq> Some this \<longrightarrow>
            (\<exists>s'. Action_calls X T this (g # gs) s = Some s' \<and>
                  repeat_count s' = of_nat (Suc (length gs)) \<and>
                  executions this s' = executions this s + Suc (length gs)))"
proof (intro conjI impI)
  from assms have returns: "\<forall>a. action_fn (actions X T this) a \<noteq> None"
    by (simp add: repeatable_returns)
  then obtain a where a: "action_fn (actions X T this) (act s) = Some a" by blast
  from Action_call_repeatable [OF assms a]
  show "\<exists>s'. Action_call X T this s = Some s' \<and>
               executions this s' = Suc (executions this s) \<and>
               lastRepeatableAction s' = Some this \<and>
               repeat_count s' =
                 (if lastRepeatableAction s = Some this then repeat_count s + 1 else 1) \<and>
               (lastRepeatableAction s = Some this \<and> repeat_count s \<noteq> 255 \<longrightarrow>
                  repeat_count s < repeat_count s')"
    by (simp add: executions_def byte_less_Suc)
next
  assume fresh: "lastRepeatableAction s \<noteq> Some this"
  from assms have returns: "\<forall>a. action_fn (actions X T this) a \<noteq> None"
    by (simp add: repeatable_returns)
  from Action_calls_fresh_run [OF assms returns fresh, of g gs]
  show "\<exists>s'. Action_calls X T this (g # gs) s = Some s' \<and>
                  repeat_count s' = of_nat (Suc (length gs)) \<and>
                  executions this s' = executions this s + Suc (length gs)"
    by blast
qed

theorem Action_calls_repeat_count_witness:
  "is_repeatable (actions example_ext example_tables Action_Bright_Up) \<and>
   lastRepeatableAction (initial_state example_globals) \<noteq> Some Action_Bright_Up \<and>
   Action_call example_ext example_tables Action_Bright_Up (example_after Action_Bright_Up 900)
     = Some ((example_after Action_Bright_Up 900)
               \<lparr>act := (act (example_after Action_Bright_Up 900))
                          \<lparr>wled := example_globals\<lparr>bri := 154\<rparr>\<rparr>,
                repeat_count := 2, last_action_time := 1000,
                trace := [Serial_println ''Repeating Action'',
                          Call_action_fn Action_Bright_Up, ColorUpdated]\<rparr>) \<and>
   map_option repeat_count
     (Action_calls example_ext example_tables Action_Bright_Up
        [example_globals, example_globals, example_globals] (initial_state example_globals))
     = Some 3 \<and>
   map_option (executions Action_Bright_Up)
     (Action_calls example_ext example_tables Action_Bright_Up
        [example_globals, example_globals, example_globals] (initial_state example_globals))
     = Some 3"
proof -
  have f: "lastRepeatableAction (initial_state example_globals) \<noteq> Some Action_Bright_Up"
    by (simp add: initial_state_def)
  note w = Action_calls_repeat_count [OF Bright_Up_total [THEN conjunct1],
               of example_ext example_tables]
  have e0: "executions Action_Bright_Up (initial_state example_globals) = 0"
    by (simp add: executions_def initial_state_def)
  from w [of "initial_state example_globals" example_globals "[example_globals, example_globals]",
          THEN conjunct2, THEN mp, OF f] e0
  have run: "map_option repeat_count
       (Action_calls example_ext example_tables Action_Bright_Up
          [example_globals, example_globals, example_globals] (initial_state example_globals))
       = Some 3 \<and>
     map_option (executions Action_Bright_Up)
       (Action_calls example_ext example_tables Action_Bright_Up
          [example_globals, example_globals, example_globals] (initial_state example_globals))
       = Some 3"
    by auto
  have one: "Action_call example_ext example_tables Action_Bright_Up (example_after Action_Bright_Up 900)
     = Some ((example_after Action_Bright_Up 900)
               \<lparr>act := (act (example_after Action_Bright_Up 900))
                          \<lparr>wled := example_globals\<lparr>bri := 154\<rparr>\<rparr>,
                repeat_count := 2, last_action_time := 1000,
                trace := [Serial_println ''Repeating Action'',
                          Call_action_fn Action_Bright_Up, ColorUpdated]\<rparr>)"
    by (simp add: Action_call_def example_after_def initial_state_def example_globals_def
        example_ext_def globally_def incBri_def incBrightness_def brightnessSteps_def)
  from run one f Bright_Up_total show ?thesis by simp
qed


text \<open>
  The claim C9 as stated, that the counter increases strictly at every repeat, fails at
  the 256th invocation of a run: the brightness key held from start-up leaves the counter
  at 255 after 255 invocations and at 0 after 256.
\<close>

theorem repeat_count_wraps:
  "is_repeatable (actions example_ext example_tables Action_Bright_Up) \<and>
   map_option repeat_count
     (Action_calls example_ext example_tables Action_Bright_Up
        (example_globals # replicate 254 example_globals) (initial_state example_globals))
     = Some 255 \<and>
   map_option repeat_count
     (Action_calls example_ext example_tables Action_Bright_Up
        (example_globals # replicate 255 example_globals) (initial_state example_globals))
     = Some 0"
proof -
  have f: "lastRepeatableAction (initial_state example_globals) \<noteq> Some Action_Bright_Up"
    by (simp add: initial_state_def)
  note r = Action_calls_fresh_run
             [OF Bright_Up_total [THEN conjunct1] Bright_Up_total [THEN conjunct2] f,
              of example_ext example_tables example_globals]
  from r [of "replicate 254 example_globals"]
  have a: "map_option repeat_count
     (Action_calls example_ext example_tables Action_Bright_Up
        (example_globals # replicate 254 example_globals) (initial_state example_globals))
     = Some 255"
    by auto
  from r [of "replicate 255 example_globals"]
  have b: "map_option repeat_count
     (Action_calls example_ext example_tables Action_Bright_Up
        (example_globals # replicate 255 example_globals) (initial_state example_globals))
     = Some 0"
    by auto
  from a b Bright_Up_total show ?thesis by simp
qed

subsection \<open>The number of preset buttons\<close>

lemma Preset_10_range:
  "ActionType_value t \<ge> ActionType_value Action_Preset_10 \<and>
   ActionType_value t \<le> ActionType_value Action_Preset_10 \<longleftrightarrow> t = Action_Preset_10"
  by (cases t) simp_all

lemma countPresetButtons_count:
  "countPresetButtons profile r = r + of_nat (tenthPresetEntries profile)"
proof (induction profile arbitrary: r)
  case Nil
  then show ?case by (simp add: tenthPresetEntries_def entries_def)
next
  case (Cons keyMap rest)
  have t: "tenthPresetEntries (keyMap # rest) =
        (if irCode keyMap = 0 then 0
         else (if actionType keyMap = Action_Preset_10 then 1 else 0) + tenthPresetEntries rest)"
    by (simp add: tenthPresetEntries_def entries_def)
  show ?case
    by (simp only: countPresetButtons.simps Preset_10_range Cons.IH t) simp
qed


lemma presetButtonsConfigured_scan:
  assumes "unat (irEnabled (wled s)) = i" and "buttonActions T i = Some profile"
    and "results s i = 0"
  shows "presetButtonsConfigured T s =
           Some (of_nat (tenthPresetEntries profile),
                 s\<lparr>results := (results s)(i := of_nat (tenthPresetEntries profile))\<rparr>)"
proof -
  from assms(2) have "i < ConfigurableRemoteCount"
    by (simp add: buttonActions_def split: if_splits)
  with assms show ?thesis
    by (simp add: presetButtonsConfigured_def countPresetButtons_count Let_def)
qed

lemma presetButtonsConfigured_cached:
  assumes "unat (irEnabled (wled s)) = i" and "i < ConfigurableRemoteCount"
    and "results s i \<noteq> 0"
  shows "presetButtonsConfigured T s = Some (results s i, s)"
  using assms by (simp add: presetButtonsConfigured_def)

text \<open>
  Claim C7, as the code has it. With a valid selection, \<^verbatim>\<open>presetButtonsConfigured\<close>
  scans the profile exactly when the cached byte of the selection is 0: it then returns,
  and stores for the selection, the number of entries of the profile whose action type is
  \<^verbatim>\<open>Action_Preset_10\<close>, counted in a byte, that is modulo 256; this is 0 for a profile
  with no such entry, which leaves the state as it was, and 1 for a profile with one. When
  the cached byte is not 0 it is returned and the state is unchanged whatever the key maps
  contain: the key map is not read.
\<close>

theorem presetButtonsConfigured_count:
  assumes "unat (irEnabled (wled s)) = i" and "buttonActions T i = Some profile"
  shows "(results s i = 0 \<longrightarrow>
            presetButtonsConfigured T s =
              Some (of_nat (tenthPresetEntries profile),
                    s\<lparr>results := (results s)(i := of_nat (tenthPresetEntries profile))\<rparr>)) \<and>
         (results s i = 0 \<and> tenthPresetEntries profile = 0 \<longrightarrow>
            presetButtonsConfigured T s = Some (0, s)) \<and>
         (results s i = 0 \<and> tenthPresetEntries profile = 1 \<longrightarrow>
            presetButtonsConfigured T s = Some (1, s\<lparr>results := (results s)(i := 1)\<rparr>)) \<and>
         (results s i \<noteq> 0 \<longrightarrow>
            (\<forall>T'. presetButtonsConfigured T' s = Some (results s i, s)))"
proof -
  from assms(2) have i: "i < ConfigurableRemoteCount"
    by (simp add: buttonActions_def split: if_splits)
  have z: "results s i = 0 \<Longrightarrow> s\<lparr>results := (results s)(i := 0)\<rparr> = s"
    by (metis fun_upd_triv action_state.surjective action_state.update_convs(4))
  show ?thesis
    using presetButtonsConfigured_scan [OF assms] presetButtonsConfigured_cached [OF assms(1) i] z
    by auto
qed


theorem presetButtonsConfigured_count_witness:
  "unat (irEnabled (wled (act (initial_state (example_globals\<lparr>irEnabled := 10\<rparr>))))) = 10 \<and>
   buttonActions example_tables 10 = Some (Squeezebox_Actions example_tables) \<and>
   tenthPresetEntries (Squeezebox_Actions example_tables) = 1 \<and>
   presetButtonsConfigured example_tables
       (act (initial_state (example_globals\<lparr>irEnabled := 10\<rparr>)))
     = Some (1, (act (initial_state (example_globals\<lparr>irEnabled := 10\<rparr>)))
                  \<lparr>results := (\<lambda>i. 0)(10 := 1)\<rparr>) \<and>
   presetButtonsConfigured (example_tables\<lparr>Squeezebox_Actions := []\<rparr>)
       ((act (initial_state (example_globals\<lparr>irEnabled := 10\<rparr>)))
          \<lparr>results := (\<lambda>i. 0)(10 := 1)\<rparr>)
     = Some (1, (act (initial_state (example_globals\<lparr>irEnabled := 10\<rparr>)))
                  \<lparr>results := (\<lambda>i. 0)(10 := 1)\<rparr>) \<and>
   unat (irEnabled (wled (act (initial_state example_globals)))) = 6 \<and>
   buttonActions example_tables 6 = Some (IR6_Actions example_tables) \<and>
   tenthPresetEntries (IR6_Actions example_tables) = 0 \<and>
   presetButtonsConfigured example_tables (act (initial_state example_globals))
     = Some (0, act (initial_state example_globals))"
proof -
  let ?s10 = "act (initial_state (example_globals\<lparr>irEnabled := 10\<rparr>))"
  let ?s10' = "?s10\<lparr>results := (\<lambda>i. 0)(10 := 1)\<rparr>"
  let ?s6 = "act (initial_state example_globals)"
  have i10: "unat (irEnabled (wled ?s10)) = 10" "unat (irEnabled (wled ?s10')) = 10"
    and i6: "unat (irEnabled (wled ?s6)) = 6"
    by (simp_all add: initial_state_def example_globals_def)
  have b10: "buttonActions example_tables 10 = Some (Squeezebox_Actions example_tables)"
    and b10': "buttonActions (example_tables\<lparr>Squeezebox_Actions := []\<rparr>) 10 = Some []"
    and b6: "buttonActions example_tables 6 = Some (IR6_Actions example_tables)"
    by (simp_all add: buttonActions_def ConfigurableRemoteCount_def)
  have t10: "tenthPresetEntries (Squeezebox_Actions example_tables) = 1"
    and t6: "tenthPresetEntries (IR6_Actions example_tables) = 0"
    by (simp_all add: tenthPresetEntries_def entries_def example_tables_def)
  have r: "results ?s10 10 = 0" "results ?s10' 10 \<noteq> 0" "results ?s10' 10 = 1"
      "results ?s10 = (\<lambda>i. 0)" "results ?s6 6 = 0"
    by (simp_all add: initial_state_def)
  from presetButtonsConfigured_count [OF i10(1) b10, THEN conjunct2, THEN conjunct2, THEN conjunct1] r(1,4) t10
  have a: "presetButtonsConfigured example_tables ?s10 = Some (1, ?s10')" by simp
  from presetButtonsConfigured_count [OF i10(2) b10', THEN conjunct2, THEN conjunct2, THEN conjunct2, THEN mp,
            OF r(2), THEN spec, of "example_tables\<lparr>Squeezebox_Actions := []\<rparr>"] r(3)
  have b: "presetButtonsConfigured (example_tables\<lparr>Squeezebox_Actions := []\<rparr>) ?s10'
              = Some (1, ?s10')" by simp
  from presetButtonsConfigured_count [OF i6 b6, THEN conjunct2, THEN conjunct1] r(5) t6
  have c: "presetButtonsConfigured example_tables ?s6 = Some (0, ?s6)" by simp
  from i10 i6 b10 b6 t10 t6 a b c show ?thesis by simp
qed

text \<open>
  The claim C7 as stated fails in two places. A count of 0 is not cached: after a first
  call for the six-key remote, which has no entry for the tenth preset, the state is as
  before, and what a later call for the same selection returns follows the key map it is
  given, so it reads the key map again. And the count is a byte: for a profile with 256
  entries for the tenth preset the function returns 0.
\<close>

lemma tenthPresetEntries_example_256: "tenthPresetEntries example_256 = 256"
proof -
  have nz: "(of_nat (Suc n) :: uint32) \<noteq> 0" if "n < 256" for n
  proof
    assume a: "(of_nat (Suc n) :: uint32) = 0"
    have "unat (of_nat (Suc n) :: uint32) = Suc n mod 2 ^ LENGTH(32)" by (rule unat_of_nat)
    also have "\<dots> = Suc n" using that by simp
    finally have "unat (of_nat (Suc n) :: uint32) = Suc n" .
    from this [unfolded a] show False by simp
  qed
  have "\<forall>k \<in> set example_256. irCode k \<noteq> 0"
    using nz by (auto simp: example_256_def)
  then have "entries example_256 = example_256"
    by (simp add: entries_def takeWhile_eq_all_conv)
  then show ?thesis
    by (simp add: tenthPresetEntries_def) (simp add: example_256_def)
qed

theorem presetButtonsConfigured_rescans:
  "presetButtonsConfigured example_tables (act (initial_state example_globals))
     = Some (0, act (initial_state example_globals)) \<and>
   presetButtonsConfigured
       (example_tables\<lparr>IR6_Actions := [\<lparr>irCode = 1, actionType = Action_Preset_10\<rparr>]\<rparr>)
       (act (initial_state example_globals))
     = Some (1, (act (initial_state example_globals))\<lparr>results := (\<lambda>i. 0)(6 := 1)\<rparr>) \<and>
   tenthPresetEntries example_256 = 256 \<and>
   presetButtonsConfigured (example_tables\<lparr>IR6_Actions := example_256\<rparr>)
       (act (initial_state example_globals))
     = Some (0, act (initial_state example_globals))"
proof -
  let ?s6 = "act (initial_state example_globals)"
  have i6: "unat (irEnabled (wled ?s6)) = 6"
    by (simp add: initial_state_def example_globals_def)
  have b: "buttonActions T 6 = Some (IR6_Actions T)" for T
    by (simp add: buttonActions_def ConfigurableRemoteCount_def)
  have r: "results ?s6 6 = 0" "results ?s6 = (\<lambda>i. 0)"
    by (simp_all add: initial_state_def)
  have "(\<lambda>i. 0 :: byte)(6 := 0) = (\<lambda>i :: nat. 0)" by (simp add: fun_eq_iff)
  then have z: "?s6\<lparr>results := (\<lambda>i. 0)(6 := 0)\<rparr> = ?s6"
    by (simp add: initial_state_def)
  have t: "tenthPresetEntries (IR6_Actions example_tables) = 0"
     "tenthPresetEntries [\<lparr>irCode = 1, actionType = Action_Preset_10\<rparr>] = 1"
    by (simp_all add: tenthPresetEntries_def entries_def example_tables_def)
  from presetButtonsConfigured_scan [OF i6 b r(1), of example_tables] t r z
  have c1: "presetButtonsConfigured example_tables ?s6 = Some (0, ?s6)" by simp
  from presetButtonsConfigured_scan [OF i6 b r(1),
         of "example_tables\<lparr>IR6_Actions := [\<lparr>irCode = 1, actionType = Action_Preset_10\<rparr>]\<rparr>"] t r
  have c2: "presetButtonsConfigured
       (example_tables\<lparr>IR6_Actions := [\<lparr>irCode = 1, actionType = Action_Preset_10\<rparr>]\<rparr>) ?s6
     = Some (1, ?s6\<lparr>results := (\<lambda>i. 0)(6 := 1)\<rparr>)" by simp
  have w: "(256 :: byte) = 0" by simp
  from presetButtonsConfigured_scan [OF i6 b r(1), of "example_tables\<lparr>IR6_Actions := example_256\<rparr>"]
       tenthPresetEntries_example_256 r z w
  have c3: "presetButtonsConfigured (example_tables\<lparr>IR6_Actions := example_256\<rparr>) ?s6
     = Some (0, ?s6)" by simp
  from c1 c2 c3 tenthPresetEntries_example_256 show ?thesis by simp
qed

subsection \<open>Previous effect and previous palette\<close>

lemma dec_mod_iff:
  fixes c M :: nat
  assumes "0 < M"
  shows "((c + 255) mod M = nat ((int c - 1) mod int M)) \<longleftrightarrow> M dvd 256"
proof -
  have "((c + 255) mod M = nat ((int c - 1) mod int M)) \<longleftrightarrow>
        (int ((c + 255) mod M) = (int c - 1) mod int M)"
    using assms by (metis int_nat_eq nat_int pos_mod_sign of_nat_0_less_iff)
  also have "\<dots> \<longleftrightarrow> ((int c + 255) mod int M = (int c - 1) mod int M)"
    by (simp add: zmod_int)
  also have "\<dots> \<longleftrightarrow> int M dvd ((int c + 255) - (int c - 1))"
    by (rule mod_eq_dvd_iff)
  also have "\<dots> \<longleftrightarrow> int M dvd int 256" by simp
  also have "\<dots> \<longleftrightarrow> M dvd 256" by (rule int_dvd_int_iff)
  finally show ?thesis .
qed

lemma unat_minus_one_byte: "unat (- 1 :: byte) = 255"
  by (simp add: unsigned_minus_1_eq_mask mask_eq_exp_minus_1)

lemma unat_byte_mod:
  assumes "0 < M" and "M \<le> 256"
  shows "unat (of_nat (n mod M) :: byte) = n mod M"
proof -
  from assms have "n mod M < 256" using mod_less_divisor [of M n] by linarith
  then show ?thesis by (simp add: unat_of_nat)
qed

text \<open>
  Claim C10. \<^verbatim>\<open>actionDecPreset\<close>, the bound function of "Prev Preset", passes -1 as
  the byte 255: with a number of effects between 1 and 256, the numbers a byte can index,
  the new effect index is (current + 255) mod \<^verbatim>\<open>MODE_COUNT\<close>, and this is the current
  index decremented by one modulo \<^verbatim>\<open>MODE_COUNT\<close> exactly when \<^verbatim>\<open>MODE_COUNT\<close>
  divides 256. The same holds for \<^verbatim>\<open>actionDecPalette\<close>, the bound function of
  "Prev Palette", with the number of palettes.
\<close>

theorem actionDecPreset_offset:
  "(0 < MODE_COUNT X \<and> MODE_COUNT X \<le> 256 \<longrightarrow>
      (\<exists>g'. actionDecPreset X g = Some g' \<and>
            g' = g\<lparr>effectCurrent := effectCurrent g'\<rparr> \<and>
            unat (effectCurrent g') = (unat (effectCurrent g) + 255) mod MODE_COUNT X) \<and>
      ((unat (effectCurrent g) + 255) mod MODE_COUNT X
         = nat ((int (unat (effectCurrent g)) - 1) mod int (MODE_COUNT X))
       \<longleftrightarrow> MODE_COUNT X dvd 256)) \<and>
   (0 < getPaletteCount X g \<and> getPaletteCount X g \<le> 256 \<longrightarrow>
      (\<exists>g'. actionDecPalette X g = Some g' \<and>
            g' = g\<lparr>effectPalette := effectPalette g'\<rparr> \<and>
            unat (effectPalette g') = (unat (effectPalette g) + 255) mod getPaletteCount X g) \<and>
      ((unat (effectPalette g) + 255) mod getPaletteCount X g
         = nat ((int (unat (effectPalette g)) - 1) mod int (getPaletteCount X g))
       \<longleftrightarrow> getPaletteCount X g dvd 256)) \<and>
   action_fn (actions X T Action_Preset_Prev) = globally_opt (actionDecPreset X) \<and>
   action_fn (actions X T Action_Palette_Prev) = globally_opt (actionDecPalette X)"
  using dec_mod_iff [of "MODE_COUNT X" "unat (effectCurrent g)"]
        dec_mod_iff [of "getPaletteCount X g" "unat (effectPalette g)"]
  by (simp add: actionDecPreset_def actionChangePreset_def actionDecPalette_def
        actionChangePalette_def unat_byte_mod unat_minus_one_byte)


theorem actionDecPreset_offset_witness:
  "0 < MODE_COUNT example_ext \<and> MODE_COUNT example_ext \<le> 256 \<and>
   actionDecPreset example_ext example_globals = Some (example_globals\<lparr>effectCurrent := 19\<rparr>) \<and>
   \<not> MODE_COUNT example_ext dvd 256 \<and>
   0 < getPaletteCount example_ext example_globals \<and>
   getPaletteCount example_ext example_globals \<le> 256 \<and>
   actionDecPalette example_ext example_globals = Some (example_globals\<lparr>effectPalette := 31\<rparr>) \<and>
   actionDecPreset (example_ext\<lparr>MODE_COUNT := 128\<rparr>) example_globals
     = Some (example_globals\<lparr>effectCurrent := 127\<rparr>)"
  using actionDecPreset_offset [of example_ext example_globals]
        actionDecPreset_offset [of "example_ext\<lparr>MODE_COUNT := 128\<rparr>" example_globals]
  by (simp add: example_ext_def example_globals_def actionDecPreset_def actionChangePreset_def
        actionDecPalette_def actionChangePalette_def unat_minus_one_byte)

end
